theory Spec2Isabelle
  imports Complex_Main "HOL-Library.Sublist" "HOL-Library.AList"
begin

section \<open>Python values and exceptions\<close>

text \<open>
  The module \<^verbatim>\<open>tools/cice_bry.py\<close> is modelled function by function. An exception is a
  value of type \<open>exn\<close>; a message built with \<^verbatim>\<open>str.format\<close> keeps its template and the
  list of formatted arguments, so that a theorem can say which name or date an error
  reports. A datetime is an integer count of microseconds since an epoch, a timedelta is
  the difference of two of them.
\<close>

type_synonym datetime = int

datatype pyval = PStr string | PNone

datatype fmtarg = FStr string | FDate datetime

datatype exn =
    ValueError string "fmtarg list"
  | IOError string "fmtarg list"
  | TypeError string "fmtarg list"
  | AttributeError string
  | NameError string
  | UnboundLocalError string
  | KeyError string
  | IndexError
  | RuntimeError string
  | NotImplementedError string

text \<open>Sequencing of computations that may raise: the first exception wins.\<close>

definition bindE :: "exn + 'a \<Rightarrow> ('a \<Rightarrow> exn + 'b) \<Rightarrow> exn + 'b" where
  "bindE m f = (case m of Inl e \<Rightarrow> Inl e | Inr x \<Rightarrow> f x)"

fun mapE :: "('a \<Rightarrow> exn + 'b) \<Rightarrow> 'a list \<Rightarrow> exn + 'b list" where
  "mapE f [] = Inr []"
| "mapE f (x # xs) = bindE (f x) (\<lambda>y. bindE (mapE f xs) (\<lambda>ys. Inr (y # ys)))"

text \<open>
  \<^verbatim>\<open>s.replace(old, new)\<close>: the occurrences of \<open>old\<close> are found from the left and do not
  overlap; with an empty \<open>old\<close>, \<open>new\<close> is put before every character and at the end.
\<close>

function str_replace :: "string \<Rightarrow> string \<Rightarrow> string \<Rightarrow> string" where
  "str_replace [] old new = (if old = [] then new else [])"
| "str_replace (c # cs) old new =
     (if old = [] then new @ c # str_replace cs old new
      else if prefix old (c # cs) then new @ str_replace (drop (length old) (c # cs)) old new
      else c # str_replace cs old new)"
  by pat_completeness auto
termination
  by (relation "measure (\<lambda>(s, old, new). length s)") auto

text \<open>\<^verbatim>\<open>d[k]\<close> on a dict held as an association list, and Python's list indexing
  (a negative index counts from the end).\<close>

definition dict_get :: "(string \<times> 'v) list \<Rightarrow> string \<Rightarrow> exn + 'v" where
  "dict_get d k = (case map_of d k of None \<Rightarrow> Inl (KeyError k) | Some v \<Rightarrow> Inr v)"

definition norm_index :: "nat \<Rightarrow> int \<Rightarrow> exn + nat" where
  "norm_index n i =
     (let j = (if i < 0 then int n + i else i)
      in if 0 \<le> j \<and> j < int n then Inr (nat j) else Inl IndexError)"

definition list_get :: "'a list \<Rightarrow> int \<Rightarrow> exn + 'a" where
  "list_get xs i = bindE (norm_index (length xs) i) (\<lambda>j. Inr (xs ! j))"

section \<open>class BryVar and the catalog\<close>

datatype dtype = Int16 | Float

record BryVar =
  name :: string
  dtype :: dtype
  dims :: "string list"
  attrs :: "(string \<times> pyval) list"

text \<open>Attributes of \<^verbatim>\<open>CiceBry.__init__\<close> that are set to literals and never assigned again.\<close>

definition self_dims :: "(string \<times> string) list" where
  "self_dims = [(''t'', ''days''), (''cat'', ''ice_types''), (''z'', ''nkice''),
                (''x'', ''xi_t''), (''y'', ''eta_t'')]"

definition bry_order :: "string list" where
  "bry_order = [''W'', ''S'', ''E'', ''N'']"

definition cat_lims :: "real list" where
  "cat_lims = [0, 0.6445072, 1.391433, 2.470179, 4.567288, 100000000]"

definition bry_to_coor :: "(string \<times> string) list" where
  "bry_to_coor = [(''W'', ''eta_t''), (''S'', ''xi_t''), (''E'', ''eta_t''), (''N'', ''xi_t'')]"

text \<open>\<^verbatim>\<open>val.replace(...)\<close> on an attribute value: \<^verbatim>\<open>None\<close> has no such method.\<close>

definition val_replace :: "pyval \<Rightarrow> string \<Rightarrow> string \<Rightarrow> exn + pyval" where
  "val_replace v old new =
     (case v of PStr s \<Rightarrow> Inr (PStr (str_replace s old new))
      | PNone \<Rightarrow> Inl (AttributeError ''replace''))"

text \<open>The loop \<^verbatim>\<open>for key, val in attrs.items(): actual_attrs[key] = val.replace(bry_replace, bry)\<close>.\<close>

fun replace_attrs ::
  "(string \<times> pyval) list \<Rightarrow> (string \<times> pyval) list \<Rightarrow> string \<Rightarrow> string \<Rightarrow> exn + (string \<times> pyval) list" where
  "replace_attrs [] actual_attrs bry_replace bry = Inr actual_attrs"
| "replace_attrs ((key, val) # items) actual_attrs bry_replace bry =
     bindE (val_replace val bry_replace bry)
       (\<lambda>v. replace_attrs items (AList.update key v actual_attrs) bry_replace bry)"

text \<open>The loop \<^verbatim>\<open>for bry in self.bry_order\<close> of \<^verbatim>\<open>omnibry_var\<close>, with the list built so far.\<close>

fun omnibry_loop ::
  "string list \<Rightarrow> string \<Rightarrow> dtype \<Rightarrow> string list \<Rightarrow> (string \<times> pyval) list \<Rightarrow> string
   \<Rightarrow> BryVar list \<Rightarrow> exn + BryVar list" where
  "omnibry_loop [] nm dt ds ats bry_replace bry_vars = Inr bry_vars"
| "omnibry_loop (bry # rest) nm dt ds ats bry_replace bry_vars =
     bindE (replace_attrs ats ats bry_replace bry) (\<lambda>actual_attrs.
     bindE (dict_get bry_to_coor bry) (\<lambda>coor.
       omnibry_loop rest nm dt ds ats bry_replace
         (bry_vars @ [\<lparr>name = str_replace nm bry_replace bry, dtype = dt,
                       dims = map (\<lambda>d. str_replace d bry_replace coor) ds,
                       attrs = actual_attrs\<rparr>])))"

definition omnibry_var ::
  "string \<Rightarrow> dtype \<Rightarrow> string list \<Rightarrow> (string \<times> pyval) list \<Rightarrow> string \<Rightarrow> exn + BryVar list" where
  "omnibry_var nm dt ds ats bry_replace = omnibry_loop bry_order nm dt ds ats bry_replace []"

text \<open>
  \<^verbatim>\<open>load_bry_vars\<close>: two plain variables, then sixteen templates, each expanded by
  \<^verbatim>\<open>omnibry_var\<close> with the default placeholder \<^verbatim>\<open>"BRY"\<close> and appended in the order of the
  source. The source writes the dimensions of the first two as \<^verbatim>\<open>("days")\<close> and
  \<^verbatim>\<open>("nkice")\<close>, which are the bare strings; netCDF takes such a string as the single
  dimension name, which the one-element lists stand for.
\<close>

definition plain_vars :: "BryVar list" where
  "plain_vars =
     [\<lparr>name = ''Time'', dtype = Int16, dims = [''days''],
       attrs = [(''long_name'', PStr ''model time''),
                (''units'', PStr ''days since 2008-01-01 00:00:00'')]\<rparr>,
      \<lparr>name = ''Ice_layers'', dtype = Int16, dims = [''nkice''],
       attrs = [(''long_name'', PStr ''vertical ice levels''), (''units'', PStr ''1'')]\<rparr>]"

definition templates :: "(string \<times> dtype \<times> string list \<times> (string \<times> pyval) list) list" where
  "templates =
     [(''TLON_BRY'', Float, [''BRY''],
         [(''long_name'', PStr ''T grid center longitude - BRY boundary''),
          (''units'', PStr ''degrees_east'')]),
      (''TLAT_BRY'', Float, [''BRY''],
         [(''long_name'', PStr ''T grid center latitude - BRY boundary''),
          (''units'', PStr ''degrees_north'')]),
      (''Tsfc_BRY_bry'', Float, [''days'', ''ice_types'', ''BRY''],
         [(''long_name'', PStr ''snow/ice surface temperature - BRY boundary'')]),
      (''aicen_BRY_bry'', Float, [''days'', ''ice_types'', ''BRY''],
         [(''long_name'', PStr ''ice area (aggregate) - BRY boundary'')]),
      (''vicen_BRY_bry'', Float, [''days'', ''ice_types'', ''BRY''],
         [(''long_name'', PStr ''grid cell mean ice thickness - BRY boundary''),
          (''units'', PStr ''m'')]),
      (''vsnon_BRY_bry'', Float, [''days'', ''ice_types'', ''BRY''],
         [(''long_name'', PStr ''grid cell mean snow thickness - BRY boundary''),
          (''units'', PStr ''m'')]),
      (''apond_BRY_bry'', Float, [''days'', ''ice_types'', ''BRY''],
         [(''long_name'', PStr ''melt pond fraction - BRY boundary''), (''units'', PStr ''1'')]),
      (''hpond_BRY_bry'', Float, [''days'', ''ice_types'', ''BRY''],
         [(''long_name'', PStr ''mean melt pond depth - BRY boundary''), (''units'', PStr ''m'')]),
      (''ipond_BRY_bry'', Float, [''days'', ''ice_types'', ''BRY''],
         [(''long_name'', PStr ''mean melt pond ice thickness - BRY boundary''),
          (''units'', PStr ''m'')]),
      (''fbrine_BRY_bry'', Float, [''days'', ''ice_types'', ''BRY''],
         [(''long_name'', PStr ''ratio of brine tracer height to ice thickness - BRY boundary''),
          (''units'', PStr ''1'')]),
      (''hbrine_BRY_bry'', Float, [''days'', ''ice_types'', ''BRY''],
         [(''long_name'', PStr ''brine surface height above sea ice base - BRY boundary''),
          (''units'', PStr ''m'')]),
      (''iage_BRY_bry'', Float, [''days'', ''ice_types'', ''BRY''],
         [(''long_name'', PStr ''ice age - BRY boundary'')]),
      (''alvln_BRY_bry'', Float, [''days'', ''ice_types'', ''BRY''],
         [(''long_name'', PStr ''concentration of level ice - BRY boundary''),
          (''units'', PStr ''1'')]),
      (''vlvln_BRY_bry'', Float, [''days'', ''ice_types'', ''BRY''],
         [(''long_name'', PStr ''volume per unit of area of level ice - BRY boundary''),
          (''units'', PStr ''m'')]),
      (''Tinz_BRY_bry'', Float, [''days'', ''ice_types'', ''nkice'', ''BRY''],
         [(''long_name'', PStr ''vertical temperature profile - BRY boundary'')]),
      (''Sinz_BRY_bry'', Float, [''days'', ''ice_types'', ''nkice'', ''BRY''],
         [(''long_name'', PStr ''vertical salinity profile - BRY boundary'')])]"

definition load_bry_vars :: "exn + BryVar list" where
  "load_bry_vars =
     bindE (mapE (\<lambda>(nm, dt, ds, ats). omnibry_var nm dt ds ats ''BRY'') templates)
       (\<lambda>expanded. Inr (plain_vars @ concat expanded))"

text \<open>The catalog that \<^verbatim>\<open>load_bry_vars\<close> returns, and its names in order.\<close>

definition catalog :: "BryVar list" where
  "catalog = (case load_bry_vars of Inr vs \<Rightarrow> vs | Inl e \<Rightarrow> [])"

definition catalog_names :: "string list" where
  "catalog_names = map name catalog"

section \<open>Arrays, indexing and broadcasting\<close>

text \<open>
  A numpy array is a shape and the item at each index; numbers are real numbers, so the
  rounding of the machine's floating point is left out, and comparisons are those of
  the reals. Binary operations broadcast as numpy does: the shapes are aligned at their
  last axes, and an axis of size one is stretched.
\<close>

record 'a ndarray =
  shape :: "nat list"
  item :: "nat list \<Rightarrow> 'a"

definition scalar :: "'a \<Rightarrow> 'a ndarray" where
  "scalar v = \<lparr>shape = [], item = (\<lambda>idx. v)\<rparr>"

definition array1 :: "'a list \<Rightarrow> 'a ndarray" where
  "array1 xs = \<lparr>shape = [length xs], item = (\<lambda>idx. xs ! hd idx)\<rparr>"

definition to_list :: "'a ndarray \<Rightarrow> 'a list" where
  "to_list a = map (\<lambda>i. item a [i]) [0..<hd (shape a)]"

fun bshape_rev :: "nat list \<Rightarrow> nat list \<Rightarrow> nat list option" where
  "bshape_rev [] ys = Some ys"
| "bshape_rev (x # xs) [] = Some (x # xs)"
| "bshape_rev (x # xs) (y # ys) =
     (if x = y \<or> y = 1 then map_option ((#) x) (bshape_rev xs ys)
      else if x = 1 then map_option ((#) y) (bshape_rev xs ys)
      else None)"

definition broadcast_shape :: "nat list \<Rightarrow> nat list \<Rightarrow> nat list option" where
  "broadcast_shape s1 s2 = map_option rev (bshape_rev (rev s1) (rev s2))"

fun bidx_rev :: "nat list \<Rightarrow> nat list \<Rightarrow> nat list" where
  "bidx_rev [] idx = []"
| "bidx_rev (d # ds) [] = []"
| "bidx_rev (d # ds) (i # idx) = (if d = 1 then 0 else i) # bidx_rev ds idx"

text \<open>The index into an operand of shape \<open>sh\<close> that the index \<open>idx\<close> of the broadcast
  result reads.\<close>

definition bidx :: "nat list \<Rightarrow> nat list \<Rightarrow> nat list" where
  "bidx sh idx = rev (bidx_rev (rev sh) (rev idx))"

definition np_map :: "('a \<Rightarrow> 'b) \<Rightarrow> 'a ndarray \<Rightarrow> 'b ndarray" where
  "np_map f a = \<lparr>shape = shape a, item = (\<lambda>idx. f (item a idx))\<rparr>"

definition np_binop :: "('a \<Rightarrow> 'b \<Rightarrow> 'c) \<Rightarrow> 'a ndarray \<Rightarrow> 'b ndarray \<Rightarrow> exn + 'c ndarray" where
  "np_binop f a b =
     (case broadcast_shape (shape a) (shape b) of
        None \<Rightarrow> Inl (ValueError ''operands could not be broadcast together'' [])
      | Some sh \<Rightarrow>
          Inr \<lparr>shape = sh,
               item = (\<lambda>idx. f (item a (bidx (shape a) idx)) (item b (bidx (shape b) idx)))\<rparr>)"

definition np_where :: "bool ndarray \<Rightarrow> 'a ndarray \<Rightarrow> 'a ndarray \<Rightarrow> exn + 'a ndarray" where
  "np_where c x y =
     bindE (np_binop Pair c x) (\<lambda>cx. np_binop (\<lambda>(ci, xi) yi. if ci then xi else yi) cx y)"

definition np_logical_and :: "bool ndarray \<Rightarrow> bool ndarray \<Rightarrow> exn + bool ndarray" where
  "np_logical_and a b = np_binop (\<and>) a b"

definition np_mul :: "real ndarray \<Rightarrow> real ndarray \<Rightarrow> exn + real ndarray" where
  "np_mul a b = np_binop (*) a b"

definition np_sub :: "real ndarray \<Rightarrow> real ndarray \<Rightarrow> exn + real ndarray" where
  "np_sub a b = np_binop (-) a b"

text \<open>
  \<^verbatim>\<open>np.linspace(start, stop, num)\<close> with array endpoints: a new first axis of \<open>num\<close>
  evenly spaced samples, the endpoint included; a single sample is the start.
\<close>

definition np_linspace :: "real ndarray \<Rightarrow> real ndarray \<Rightarrow> nat \<Rightarrow> exn + real ndarray" where
  "np_linspace start stop num =
     (case broadcast_shape (shape start) (shape stop) of
        None \<Rightarrow> Inl (ValueError ''operands could not be broadcast together'' [])
      | Some sh \<Rightarrow>
          Inr \<lparr>shape = num # sh,
               item = (\<lambda>idx. let k = hd idx; a = item start (bidx (shape start) (tl idx));
                                 b = item stop (bidx (shape stop) (tl idx))
                             in if num \<le> 1 then a else a + real k * ((b - a) / real (num - 1)))\<rparr>)"

text \<open>
  An index tuple as \<^verbatim>\<open>_get_bry_slice\<close> builds it: integers and \<^verbatim>\<open>slice(None)\<close>. The
  integers are checked against the sizes of their axes; the sliced axes remain.
\<close>

datatype ix = Ix int | Sl

fun norm_ixs :: "nat list \<Rightarrow> ix list \<Rightarrow> exn + nat option list" where
  "norm_ixs [] [] = Inr []"
| "norm_ixs (d # ds) (Ix i # ixs) =
     bindE (norm_index d i) (\<lambda>j. bindE (norm_ixs ds ixs) (\<lambda>r. Inr (Some j # r)))"
| "norm_ixs (d # ds) (Sl # ixs) = bindE (norm_ixs ds ixs) (\<lambda>r. Inr (None # r))"
| "norm_ixs [] (i # ixs) = Inl IndexError"
| "norm_ixs (d # ds) [] = Inl IndexError"

fun sliced_shape :: "nat list \<Rightarrow> nat option list \<Rightarrow> nat list" where
  "sliced_shape (d # ds) (None # sel) = d # sliced_shape ds sel"
| "sliced_shape (d # ds) (Some j # sel) = sliced_shape ds sel"
| "sliced_shape ds sel = []"

text \<open>\<open>fill sel idx\<close> is the full index of the item that \<open>idx\<close> names inside the
  selection; \<open>unfill sel full\<close> goes back, and is \<open>None\<close> outside the selection.\<close>

fun fill :: "nat option list \<Rightarrow> nat list \<Rightarrow> nat list" where
  "fill [] idx = []"
| "fill (Some j # sel) idx = j # fill sel idx"
| "fill (None # sel) [] = 0 # fill sel []"
| "fill (None # sel) (i # idx) = i # fill sel idx"

fun unfill :: "nat option list \<Rightarrow> nat list \<Rightarrow> nat list option" where
  "unfill [] [] = Some []"
| "unfill (Some j # sel) (i # full) = (if i = j then unfill sel full else None)"
| "unfill (None # sel) (i # full) = map_option ((#) i) (unfill sel full)"
| "unfill sel full = None"

fun in_shape :: "nat list \<Rightarrow> nat list \<Rightarrow> bool" where
  "in_shape [] [] = True"
| "in_shape (d # ds) (i # idx) = (i < d \<and> in_shape ds idx)"
| "in_shape ds idx = False"

definition getitem :: "nat list \<Rightarrow> (nat list \<Rightarrow> 'a) \<Rightarrow> ix list \<Rightarrow> exn + 'a ndarray" where
  "getitem sh dat ixs =
     bindE (norm_ixs sh ixs)
       (\<lambda>sel. Inr \<lparr>shape = sliced_shape sh sel, item = (\<lambda>idx. dat (fill sel idx))\<rparr>)"

text \<open>An assignment to a selection: the value must broadcast to the selection's shape.\<close>

definition setitem ::
  "nat list \<Rightarrow> (nat list \<Rightarrow> 'a) \<Rightarrow> ix list \<Rightarrow> 'a ndarray \<Rightarrow> exn + (nat list \<Rightarrow> 'a)" where
  "setitem sh dat ixs arr =
     bindE (norm_ixs sh ixs) (\<lambda>sel.
       if broadcast_shape (shape arr) (sliced_shape sh sel) = Some (sliced_shape sh sel)
       then Inr (\<lambda>full. case unfill sel full of
                          None \<Rightarrow> dat full
                        | Some idx \<Rightarrow> if in_shape sh full then item arr (bidx (shape arr) idx)
                                      else dat full)
       else Inl (ValueError ''shape mismatch'' []))"

section \<open>Datasets and the state of the objects\<close>

text \<open>
  A \<^verbatim>\<open>netCDF4.Dataset\<close> is a store: its dimensions, its variables in the order of their
  creation (the order of \<^verbatim>\<open>variables.keys()\<close>), and for each variable its shape, the
  value at each index and its attributes. A slot that was never written holds the fill
  value. The conversion of a written value to the variable's datatype is left out.
\<close>

record ncvar =
  var_dims :: "string list"
  var_shape :: "nat list"
  var_data :: "nat list \<Rightarrow> real"
  var_attrs :: "(string \<times> pyval) list"

record dataset =
  ds_path :: string
  ds_open :: bool
  ds_dims :: "(string \<times> nat) list"
  ds_vars :: "(string \<times> ncvar) list"
  ds_attrs :: "(string \<times> pyval) list"


definition empty_dataset :: "string \<Rightarrow> dataset" where
  "empty_dataset path = \<lparr>ds_path = path, ds_open = True, ds_dims = [], ds_vars = [], ds_attrs = []\<rparr>"

text \<open>An attribute of an object: not set at all, set to \<^verbatim>\<open>None\<close>, or set to a value.\<close>

datatype 'a attr = Absent | PyNone | Val 'a

text \<open>Computations on a state that may raise; the state at the raise is kept.\<close>

type_synonym ('s, 'a) M = "'s \<Rightarrow> (exn + 'a) \<times> 's"

definition returnM :: "'a \<Rightarrow> ('s, 'a) M" where
  "returnM x = (\<lambda>s. (Inr x, s))"

definition raiseM :: "exn \<Rightarrow> ('s, 'a) M" where
  "raiseM e = (\<lambda>s. (Inl e, s))"

definition liftE :: "exn + 'a \<Rightarrow> ('s, 'a) M" where
  "liftE r = (\<lambda>s. (r, s))"

definition bindM :: "('s, 'a) M \<Rightarrow> ('a \<Rightarrow> ('s, 'b) M) \<Rightarrow> ('s, 'b) M" where
  "bindM m f = (\<lambda>s. case m s of (Inl e, s') \<Rightarrow> (Inl e, s') | (Inr x, s') \<Rightarrow> f x s')"

fun forM :: "'a list \<Rightarrow> ('a \<Rightarrow> ('s, unit) M) \<Rightarrow> ('s, unit) M" where
  "forM [] body = returnM ()"
| "forM (x # xs) body = bindM (body x) (\<lambda>u. forM xs body)"



definition var_getitem :: "ncvar \<Rightarrow> ix list \<Rightarrow> exn + real ndarray" where
  "var_getitem v ixs = getitem (var_shape v) (var_data v) ixs"

definition ds_getitem :: "dataset \<Rightarrow> string \<Rightarrow> ix list \<Rightarrow> exn + real ndarray" where
  "ds_getitem d nm ixs = bindE (dict_get (ds_vars d) nm) (\<lambda>v. var_getitem v ixs)"

definition ds_setitem :: "string \<Rightarrow> ix list \<Rightarrow> real ndarray \<Rightarrow> (dataset, unit) M" where
  "ds_setitem nm ixs arr = (\<lambda>d.
     case bindE (dict_get (ds_vars d) nm)
            (\<lambda>v. bindE (setitem (var_shape v) (var_data v) ixs arr)
                    (\<lambda>dat. Inr (v\<lparr>var_data := dat\<rparr>))) of
       Inl e \<Rightarrow> (Inl e, d)
     | Inr v' \<Rightarrow> (Inr (), d\<lparr>ds_vars := AList.update nm v' (ds_vars d)\<rparr>))"

definition ds_setncattr :: "string \<Rightarrow> string \<Rightarrow> pyval \<Rightarrow> (dataset, unit) M" where
  "ds_setncattr nm attr_name attr_val = (\<lambda>d.
     case dict_get (ds_vars d) nm of
       Inl e \<Rightarrow> (Inl e, d)
     | Inr v \<Rightarrow>
         (Inr (), d\<lparr>ds_vars :=
            AList.update nm (v\<lparr>var_attrs := AList.update attr_name attr_val (var_attrs v)\<rparr>)
              (ds_vars d)\<rparr>))"

text \<open>
  The attributes of a \<^verbatim>\<open>CiceBry\<close> object that its methods assign, and those that
  \<^verbatim>\<open>CiceBryHax\<close> adds. \<^verbatim>\<open>dims\<close>, \<^verbatim>\<open>bry_order\<close> and \<^verbatim>\<open>cat_lims\<close> are the constants above.
  An object whose constructor raised has no \<^verbatim>\<open>bry\<close> attribute, and none of the
  attributes of the subclass.
\<close>

record CiceBry =
  mode :: string
  bry_file :: string
  dim_sizes :: "(string \<times> int) list option"
  bry_vars :: "BryVar list"
  start_date :: "datetime option"
  end_date :: "datetime option"
  time_units :: pyval
  bry :: "dataset attr"

record CiceBryHax = CiceBry +
  grid_file :: "string attr"
  grid :: "dataset attr"
  clm_file :: "string attr"
  clm :: "dataset attr"
  atm_file :: "string attr"
  atm :: "dataset attr"
  cice_file :: "string list attr"
  cice :: "dataset list attr"
  cice_files :: "string list attr"

text \<open>\<^verbatim>\<open>self.bry\<close> used as a dataset: an operation of the dataset run on the object.\<close>

definition on_bry :: "(dataset, 'a) M \<Rightarrow> ('b CiceBry_scheme, 'a) M" where
  "on_bry m = (\<lambda>s.
     case bry s of
       Absent \<Rightarrow> (Inl (AttributeError ''bry''), s)
     | PyNone \<Rightarrow> (Inl (AttributeError ''NoneType''), s)
     | Val d \<Rightarrow> (case m d of (r, d') \<Rightarrow> (r, s\<lparr>bry := Val d'\<rparr>)))"

section \<open>class CiceBry\<close>

text \<open>
  \<^verbatim>\<open>__init__\<close>. The files on disk are a parameter: \<open>files path\<close> is the dataset stored
  at \<open>path\<close>, if there is one. The result is the exception raised, if any, and the
  object as the constructor left it.
\<close>

definition open_read :: "(string \<Rightarrow> dataset option) \<Rightarrow> string \<Rightarrow> exn + dataset" where
  "open_read files path =
     (case files path of
        None \<Rightarrow> Inl (IOError ''No such file or directory: {}'' [FStr path])
      | Some d \<Rightarrow> Inr (d\<lparr>ds_path := path, ds_open := True\<rparr>))"

definition CiceBry_init ::
  "(string \<Rightarrow> dataset option) \<Rightarrow> string \<Rightarrow> string \<Rightarrow> string \<Rightarrow> bool \<Rightarrow> exn option \<times> CiceBry" where
  "CiceBry_init files bf md fmt overwrite =
     (let s = \<lparr>mode = md, bry_file = bf, dim_sizes = None, bry_vars = [], start_date = None,
                end_date = None, time_units = PNone, bry = Absent\<rparr>
      in case load_bry_vars of
           Inl e \<Rightarrow> (Some e, s)
         | Inr vs \<Rightarrow>
             (let s = s\<lparr>bry_vars := vs\<rparr>
              in if md = ''r'' then
                   (case open_read files bf of
                      Inl e \<Rightarrow> (Some e, s)
                    | Inr d \<Rightarrow> (None, s\<lparr>bry := Val d\<rparr>))
                 else if md = ''w'' then
                   (if files bf \<noteq> None \<and> \<not> overwrite
                    then (Some (IOError ''File {} exists! Change <bry_file>, <mode> or <overwrite>''
                                  [FStr bf]), s)
                    else (None, s\<lparr>bry := Val (empty_dataset bf)\<rparr>))
                 else (Some (ValueError ''Invalid value {} for keyword mode'' [FStr md]), s)))"

definition set_dates ::
  "datetime option \<Rightarrow> datetime option \<Rightarrow> pyval \<Rightarrow> ('a CiceBry_scheme, unit) M" where
  "set_dates sd ed units =
     (\<lambda>s. (Inr (), s\<lparr>start_date := sd, end_date := ed, time_units := units\<rparr>))"




definition write_var_attrs :: "('a CiceBry_scheme, unit) M" where
  "write_var_attrs =
     (\<lambda>s. forM (bry_vars s)
            (\<lambda>var. forM (attrs var) (\<lambda>(attr_name, attr_val).
               on_bry (ds_setncattr (name var) attr_name attr_val))) s)"

fun index_of :: "'a list \<Rightarrow> 'a \<Rightarrow> nat option" where
  "index_of [] y = None"
| "index_of (x # xs) y = (if x = y then Some 0 else map_option Suc (index_of xs y))"

definition set_var_attr :: "string \<Rightarrow> string \<Rightarrow> pyval \<Rightarrow> bool \<Rightarrow> ('a CiceBry_scheme, unit) M" where
  "set_var_attr var_name attr_name attr_val update_file =
     bindM (\<lambda>s. case index_of (map name (bry_vars s)) var_name of
                  None \<Rightarrow> (Inl (ValueError ''{} is not in list'' [FStr var_name]), s)
                | Some idx \<Rightarrow>
                    (Inr (), s\<lparr>bry_vars := (bry_vars s)
                       [idx := (bry_vars s ! idx)
                          \<lparr>attrs := AList.update attr_name attr_val (attrs (bry_vars s ! idx))\<rparr>]\<rparr>))
       (\<lambda>u. if update_file then write_var_attrs else returnM ())"

text \<open>
  \<^verbatim>\<open>get_time_array\<close>. The decoding of a number to a date by \<^verbatim>\<open>netCDF4.num2date\<close> is the
  parameter \<open>num2date\<close>, from the units and the number. A time variable has one axis.
\<close>

datatype return_type = RT_float | RT_datetime | RT_other string

datatype time_array = TFloat "real list" | TDate "datetime list"

definition get_time_array ::
  "(pyval \<Rightarrow> real \<Rightarrow> datetime) \<Rightarrow> dataset \<Rightarrow> string \<Rightarrow> return_type \<Rightarrow> exn + time_array" where
  "get_time_array num2date nc_file time_name rt =
     bindE (dict_get (ds_vars nc_file) time_name) (\<lambda>time_var.
       case rt of
         RT_float \<Rightarrow> bindE (var_getitem time_var [Sl]) (\<lambda>a. Inr (TFloat (to_list a)))
       | RT_datetime \<Rightarrow>
           bindE (var_getitem time_var [Sl]) (\<lambda>a.
           (case map_of (var_attrs time_var) ''units'' of
              None \<Rightarrow> Inl (AttributeError ''units'')
            | Some units \<Rightarrow> Inr (TDate (map (num2date units) (to_list a)))))
       | RT_other t \<Rightarrow> Inl (TypeError ''Invalid type {} for keyword return_type!'' [FStr t]))"

text \<open>\<^verbatim>\<open>np.where(time == date)[0]\<close>: the indices at which the array equals the date.\<close>

definition where_eq :: "time_array \<Rightarrow> datetime \<Rightarrow> nat list" where
  "where_eq time d =
     (case time of
        TDate ds \<Rightarrow> filter (\<lambda>i. ds ! i = d) [0..<length ds]
      | TFloat xs \<Rightarrow> [])"

definition get_time_endpoints ::
  "(pyval \<Rightarrow> real \<Rightarrow> datetime) \<Rightarrow> 'a CiceBry_scheme \<Rightarrow> dataset \<Rightarrow> string \<Rightarrow> exn + nat \<times> nat" where
  "get_time_endpoints num2date s nc_file time_name =
     (case (start_date s, end_date s) of
        (Some sd, Some ed) \<Rightarrow>
          bindE (get_time_array num2date nc_file time_name RT_datetime) (\<lambda>time.
            let start_idx = where_eq time sd; end_idx = where_eq time ed
            in if length start_idx = 0
               then Inl (ValueError ''Start date {} not in {}!'' [FDate sd, FStr (ds_path nc_file)])
               else if length end_idx = 0
               then Inl (ValueError ''End date {} not in {}!'' [FDate ed, FStr (ds_path nc_file)])
               else Inr (hd start_idx, hd end_idx))
      | _ \<Rightarrow> Inl (ValueError ''Both self.start_date and self.end_date must be non-None!'' []))"

text \<open>\<^verbatim>\<open>compute_bry_time\<close>; \<^verbatim>\<open>netCDF4.date2num\<close> is the parameter \<open>date2num\<close>.\<close>

definition compute_bry_time ::
  "(pyval \<Rightarrow> real \<Rightarrow> datetime) \<Rightarrow> (datetime \<Rightarrow> pyval \<Rightarrow> real) \<Rightarrow> 'a CiceBry_scheme \<Rightarrow> dataset
   \<Rightarrow> string \<Rightarrow> exn + real list" where
  "compute_bry_time num2date date2num s nc_file time_name =
     bindE (get_time_array num2date nc_file time_name RT_datetime) (\<lambda>input_time.
     bindE (get_time_endpoints num2date s nc_file time_name) (\<lambda>(start_idx, end_idx).
       case input_time of
         TDate ds \<Rightarrow>
           Inr (take (end_idx + 1 - start_idx)
                  (drop start_idx (map (\<lambda>d. date2num d (time_units s)) ds)))
       | TFloat xs \<Rightarrow> Inl (TypeError ''date2num'' [])))"

definition write_global_attrs :: "(string \<times> pyval) list \<Rightarrow> ('a CiceBry_scheme, unit) M" where
  "write_global_attrs ats =
     bindM (on_bry (\<lambda>d. (Inr (), d\<lparr>ds_attrs := AList.update ''title''
                (PStr ''Boundary condition file for CICE for use in METROMS'') (ds_attrs d)\<rparr>)))
       (\<lambda>u. forM ats (\<lambda>(attr_name, attr_val).
          on_bry (\<lambda>d. (Inr (), d\<lparr>ds_attrs := AList.update attr_name attr_val (ds_attrs d)\<rparr>))))"



definition CiceBry_write_bry_data :: "('a CiceBry_scheme, unit) M" where
  "CiceBry_write_bry_data = raiseM (NotImplementedError ''This method should be overwritten by a subclass!'')"

text \<open>\<^verbatim>\<open>_get_bry_slice\<close>: its three local functions, and the dispatch on \<^verbatim>\<open>slice_type\<close>
  with the keyword arguments \<^verbatim>\<open>t_idx\<close>, \<^verbatim>\<open>bry\<close> and \<^verbatim>\<open>s_idx\<close> that a call passes.\<close>

definition clm_slice_3d :: "int \<Rightarrow> string \<Rightarrow> exn + ix list" where
  "clm_slice_3d t_idx b =
     dict_get [(''W'', [Ix t_idx, Sl, Ix 0]), (''S'', [Ix t_idx, Ix 0, Sl]),
               (''E'', [Ix t_idx, Sl, Ix (- 1)]), (''N'', [Ix t_idx, Ix (- 1), Sl])] b"

definition clm_slice_4d :: "int \<Rightarrow> string \<Rightarrow> int \<Rightarrow> exn + ix list" where
  "clm_slice_4d t_idx b s_idx =
     dict_get [(''W'', [Ix t_idx, Ix s_idx, Sl, Ix 0]), (''S'', [Ix t_idx, Ix s_idx, Ix 0, Sl]),
               (''E'', [Ix t_idx, Ix s_idx, Sl, Ix (- 1)]), (''N'', [Ix t_idx, Ix s_idx, Ix (- 1), Sl])] b"

definition grid_slice_2d :: "string \<Rightarrow> exn + ix list" where
  "grid_slice_2d b =
     dict_get [(''W'', [Sl, Ix 0]), (''S'', [Ix 0, Sl]), (''E'', [Sl, Ix (- 1)]), (''N'', [Ix (- 1), Sl])] b"

definition get_bry_slice :: "string \<Rightarrow> int option \<Rightarrow> string option \<Rightarrow> int option \<Rightarrow> exn + ix list" where
  "get_bry_slice slice_type t_idx b s_idx =
     (if slice_type = ''clm_3d'' then
        (case (t_idx, b, s_idx) of
           (Some t, Some b', None) \<Rightarrow> clm_slice_3d t b'
         | _ \<Rightarrow> Inl (TypeError ''clm_slice_3d() got unexpected or missing arguments'' []))
      else if slice_type = ''clm_4d'' then
        (case (t_idx, b, s_idx) of
           (Some t, Some b', Some s') \<Rightarrow> clm_slice_4d t b' s'
         | _ \<Rightarrow> Inl (TypeError ''clm_slice_4d() got unexpected or missing arguments'' []))
      else if slice_type = ''grid_2d'' then
        (case (t_idx, b, s_idx) of
           (None, Some b', None) \<Rightarrow> grid_slice_2d b'
         | _ \<Rightarrow> Inl (TypeError ''grid_slice_2d() got unexpected or missing arguments'' []))
      else Inl (ValueError ''Invalid slice_type {}'' [FStr slice_type]))"

text \<open>
  \<^verbatim>\<open>verify_variables\<close>. The second loop is \<^verbatim>\<open>for var.name in self.bry.variables.keys()\<close>:
  its target is the attribute \<^verbatim>\<open>name\<close> of the object that \<^verbatim>\<open>var\<close> was left bound to by
  the first loop, the last entry of \<^verbatim>\<open>self.bry_vars\<close>; with no entry, \<^verbatim>\<open>var\<close> is unbound.
  The message printed on success is left out.
\<close>

definition bry_keys :: "('a CiceBry_scheme, string list) M" where
  "bry_keys = on_bry (\<lambda>d. (Inr (map fst (ds_vars d)), d))"

definition assign_var_name :: "string \<Rightarrow> ('a CiceBry_scheme, unit) M" where
  "assign_var_name k = (\<lambda>s.
     if bry_vars s = [] then (Inl (UnboundLocalError ''var''), s)
     else (Inr (), s\<lparr>bry_vars := (bry_vars s)
             [length (bry_vars s) - 1 := (last (bry_vars s))\<lparr>name := k\<rparr>]\<rparr>))"

text \<open>The object after the assignment \<^verbatim>\<open>var.name = k\<close> of that loop.\<close>

definition rename_last :: "string \<Rightarrow> 'a CiceBry_scheme \<Rightarrow> 'a CiceBry_scheme" where
  "rename_last k s = s\<lparr>bry_vars := (bry_vars s)[length (bry_vars s) - 1 := (last (bry_vars s))\<lparr>name := k\<rparr>]\<rparr>"

definition verify_variables :: "('a CiceBry_scheme, bool) M" where
  "verify_variables =
     bindM (liftE load_bry_vars) (\<lambda>catalog.
     let necessary_vars = map name catalog in
     bindM (\<lambda>s. forM (bry_vars s) (\<lambda>var.
              bindM bry_keys (\<lambda>keys.
                (\<lambda>s. if name var \<notin> set keys
                     then (Inl (ValueError ''Variable {} not in file {}!''
                                  [FStr (name var), FStr (bry_file s)]), s)
                     else (Inr (), s)))) s) (\<lambda>u.
     bindM bry_keys (\<lambda>keys.
     bindM (forM keys (\<lambda>k.
              bindM (assign_var_name k) (\<lambda>u.
                if k \<notin> set necessary_vars
                then raiseM (ValueError ''Variable {} is not needed in CICE bry file!'' [FStr k])
                else returnM ()))) (\<lambda>u.
     returnM True))))"

text \<open>
  \<^verbatim>\<open>CiceBry.__del__\<close>: \<^verbatim>\<open>hasattr(self, "bry") and self.bry.isopen()\<close>, then the close.
  Closing a dataset that is not open is an error of the library.
\<close>

definition ds_close :: "dataset \<Rightarrow> exn + dataset" where
  "ds_close d =
     (if ds_open d then Inr (d\<lparr>ds_open := False\<rparr>) else Inl (RuntimeError ''NetCDF: Not a valid ID''))"

definition CiceBry_del :: "('a CiceBry_scheme, unit) M" where
  "CiceBry_del = (\<lambda>s.
     case bry s of
       Absent \<Rightarrow> (Inr (), s)
     | PyNone \<Rightarrow> (Inl (AttributeError ''isopen''), s)
     | Val d \<Rightarrow>
         if ds_open d
         then (case ds_close d of Inl e \<Rightarrow> (Inl e, s) | Inr d' \<Rightarrow> (Inr (), s\<lparr>bry := Val d'\<rparr>))
         else (Inr (), s))"

section \<open>class CiceBryHax\<close>

definition CiceBryHax_init ::
  "(string \<Rightarrow> dataset option) \<Rightarrow> string \<Rightarrow> string \<Rightarrow> string \<Rightarrow> bool \<Rightarrow> exn option \<times> CiceBryHax" where
  "CiceBryHax_init files bf md fmt overwrite =
     (case CiceBry_init files bf md fmt overwrite of
        (Some e, b) \<Rightarrow>
          (Some e, CiceBry.extend b
             (CiceBryHax.fields Absent Absent Absent Absent Absent Absent Absent Absent Absent))
      | (None, b) \<Rightarrow>
          (None, CiceBry.extend b
             (CiceBryHax.fields PyNone PyNone PyNone PyNone PyNone PyNone PyNone PyNone Absent)))"

definition set_grid :: "(string \<Rightarrow> dataset option) \<Rightarrow> string \<Rightarrow> ('a CiceBryHax_scheme, unit) M" where
  "set_grid files gf =
     bindM (\<lambda>s. (Inr (), s\<lparr>grid_file := Val gf\<rparr>)) (\<lambda>u.
     bindM (liftE (open_read files gf)) (\<lambda>d s. (Inr (), s\<lparr>grid := Val d\<rparr>)))"

definition set_clm :: "(string \<Rightarrow> dataset option) \<Rightarrow> string \<Rightarrow> ('a CiceBryHax_scheme, unit) M" where
  "set_clm files cf =
     bindM (\<lambda>s. (Inr (), s\<lparr>clm_file := Val cf\<rparr>)) (\<lambda>u.
     bindM (liftE (open_read files cf)) (\<lambda>d s. (Inr (), s\<lparr>clm := Val d\<rparr>)))"

definition set_atm :: "(string \<Rightarrow> dataset option) \<Rightarrow> string \<Rightarrow> ('a CiceBryHax_scheme, unit) M" where
  "set_atm files af =
     bindM (\<lambda>s. (Inr (), s\<lparr>atm_file := Val af\<rparr>)) (\<lambda>u.
     bindM (liftE (open_read files af)) (\<lambda>d s. (Inr (), s\<lparr>atm := Val d\<rparr>)))"

text \<open>
  \<^verbatim>\<open>set_cice_rst\<close>. A name that is neither a local of the function nor bound at module
  level (the four imports and the three classes) nor a builtin raises \<^verbatim>\<open>NameError\<close>.
  \<open>sorted_glob\<close> stands for \<^verbatim>\<open>sorted(glob.glob(...))\<close> of a module \<^verbatim>\<open>glob\<close>, were it bound.
\<close>

datatype modval = Module string | Class string

definition module_namespace :: "(string \<times> modval) list" where
  "module_namespace =
     [(''os'', Module ''os''), (''netCDF4'', Module ''netCDF4''), (''np'', Module ''numpy''),
      (''dt'', Module ''datetime''), (''BryVar'', Class ''BryVar''), (''CiceBry'', Class ''CiceBry''),
      (''CiceBryHax'', Class ''CiceBryHax'')]"

definition lookup_global :: "string \<Rightarrow> exn + modval" where
  "lookup_global nm =
     (case map_of module_namespace nm of None \<Rightarrow> Inl (NameError nm) | Some v \<Rightarrow> Inr v)"

definition set_cice_rst ::
  "(string \<Rightarrow> string list) \<Rightarrow> string \<Rightarrow> ('a CiceBryHax_scheme, unit) M" where
  "set_cice_rst sorted_glob cf =
     bindM (\<lambda>s. if list_ex (\<lambda>w. sublist w cf) [''*'', ''?'']
                 then (case lookup_global ''glob'' of
                         Inl e \<Rightarrow> (Inl e, s)
                       | Inr m \<Rightarrow> (Inr (), s\<lparr>cice_files := Val (sorted_glob cf)\<rparr>))
                 else (Inr (), s\<lparr>cice_file := Val [cf]\<rparr>)) (\<lambda>u.
     (\<lambda>s. case lookup_global ''cice_files'' of
            Inl e \<Rightarrow> (Inl e, s)
          | Inr v \<Rightarrow> (Inl (TypeError ''object is not iterable'' []), s)))"

text \<open>\<^verbatim>\<open>CiceBryHax.__del__\<close>: the three sources, each closed if the attribute exists, is
  not \<^verbatim>\<open>None\<close> and is open; then the destructor of the superclass.\<close>

definition close_source :: "dataset attr \<Rightarrow> exn + dataset attr" where
  "close_source h =
     (case h of
        Absent \<Rightarrow> Inr Absent
      | PyNone \<Rightarrow> Inr PyNone
      | Val d \<Rightarrow> if ds_open d then bindE (ds_close d) (\<lambda>d'. Inr (Val d')) else Inr (Val d))"

definition CiceBryHax_del :: "('a CiceBryHax_scheme, unit) M" where
  "CiceBryHax_del =
     bindM (\<lambda>s. case close_source (grid s) of
                  Inl e \<Rightarrow> (Inl e, s) | Inr h \<Rightarrow> (Inr (), s\<lparr>grid := h\<rparr>)) (\<lambda>u.
     bindM (\<lambda>s. case close_source (clm s) of
                  Inl e \<Rightarrow> (Inl e, s) | Inr h \<Rightarrow> (Inr (), s\<lparr>clm := h\<rparr>)) (\<lambda>u.
     bindM (\<lambda>s. case close_source (atm s) of
                  Inl e \<Rightarrow> (Inl e, s) | Inr h \<Rightarrow> (Inr (), s\<lparr>atm := h\<rparr>)) (\<lambda>u.
     CiceBry_del)))"

text \<open>
  \<^verbatim>\<open>write_bry_data\<close>, statement by statement. The first group are the right-hand sides of
  the loop body. Where the source reads the same slice twice in one expression, the model
  reads it once: a read changes nothing. Progress lines that are printed are left out.
\<close>

definition cat_mask_expr :: "ncvar \<Rightarrow> ix list \<Rightarrow> int \<Rightarrow> exn + bool ndarray" where
  "cat_mask_expr hice cslice n =
     bindE (var_getitem hice cslice) (\<lambda>h.
     bindE (list_get cat_lims n) (\<lambda>lo.
     bindE (list_get cat_lims (n + 1)) (\<lambda>hi.
       np_logical_and (np_map (\<lambda>x. x > lo) h) (np_map (\<lambda>x. x < hi) h))))"

text \<open>\<^verbatim>\<open>np.where(cat_mask, x, other)*land_mask[cslice[1:]]\<close>, the form of every value
  the body writes.\<close>

definition where_times_land ::
  "bool ndarray \<Rightarrow> real ndarray \<Rightarrow> real \<Rightarrow> ncvar \<Rightarrow> ix list \<Rightarrow> exn + real ndarray" where
  "where_times_land cat_mask x other land_mask cslice =
     bindE (np_where cat_mask x (scalar other)) (\<lambda>w.
     bindE (var_getitem land_mask (tl cslice)) (\<lambda>l. np_mul w l))"

definition np_linspace_int :: "real ndarray \<Rightarrow> real ndarray \<Rightarrow> int \<Rightarrow> exn + real ndarray" where
  "np_linspace_int start stop num =
     (if num < 0 then Inl (ValueError ''Number of samples, {}, must be non-negative.'' [])
      else np_linspace start stop (nat num))"

definition bry_name :: "string \<Rightarrow> string \<Rightarrow> string" where
  "bry_name var b = var @ ''_'' @ b @ ''_bry''"

definition step_aicen ::
  "ncvar \<Rightarrow> ncvar \<Rightarrow> bool ndarray \<Rightarrow> ix list \<Rightarrow> ix list \<Rightarrow> string \<Rightarrow> (dataset, unit) M" where
  "step_aicen aice land_mask cat_mask cslice bslice b =
     bindM (liftE (bindE (var_getitem aice cslice)
                     (\<lambda>a. where_times_land cat_mask a 0 land_mask cslice)))
       (\<lambda>v. ds_setitem (bry_name ''aicen'' b) bslice v)"

definition step_vicen ::
  "ncvar \<Rightarrow> ncvar \<Rightarrow> ncvar \<Rightarrow> bool ndarray \<Rightarrow> ix list \<Rightarrow> ix list \<Rightarrow> string \<Rightarrow> (dataset, unit) M" where
  "step_vicen hice aice land_mask cat_mask cslice bslice b =
     bindM (liftE (bindE (var_getitem hice cslice) (\<lambda>h.
                   bindE (var_getitem aice cslice) (\<lambda>a.
                   bindE (np_mul h a) (\<lambda>ha. where_times_land cat_mask ha 0 land_mask cslice)))))
       (\<lambda>v. ds_setitem (bry_name ''vicen'' b) bslice v)"

definition step_vsnon ::
  "ncvar \<Rightarrow> bool ndarray \<Rightarrow> ix list \<Rightarrow> ix list \<Rightarrow> string \<Rightarrow> (dataset, unit) M" where
  "step_vsnon land_mask cat_mask cslice bslice b =
     bindM (\<lambda>d. (bindE (ds_getitem d (bry_name ''vicen'' b) bslice) (\<lambda>vi.
                    where_times_land cat_mask (np_map ((*) 0.2) vi) 0 land_mask cslice), d))
       (\<lambda>v. ds_setitem (bry_name ''vsnon'' b) bslice v)"

definition step_Tsfc ::
  "ncvar \<Rightarrow> ncvar \<Rightarrow> bool ndarray \<Rightarrow> ix list \<Rightarrow> ix list \<Rightarrow> ix list \<Rightarrow> string \<Rightarrow> (dataset, unit) M" where
  "step_Tsfc tair land_mask cat_mask cslice aslice bslice b =
     bindM (liftE (bindE (var_getitem tair aslice)
                     (\<lambda>t. where_times_land cat_mask t 0 land_mask cslice)))
       (\<lambda>v. ds_setitem (bry_name ''Tsfc'' b) bslice v)"

definition step_Sinz ::
  "int \<Rightarrow> ncvar \<Rightarrow> ncvar \<Rightarrow> bool ndarray \<Rightarrow> ix list \<Rightarrow> ix list \<Rightarrow> ix list \<Rightarrow> string
   \<Rightarrow> (dataset, unit) M" where
  "step_Sinz nk salt land_mask cat_mask cslice cslice_4d bslice_4d b =
     bindM (liftE (bindE (var_getitem salt cslice_4d) (\<lambda>sa.
                   bindE (np_linspace_int sa (np_map ((*) 0.2) sa) nk) (\<lambda>salt_interp.
                     where_times_land cat_mask salt_interp 5 land_mask cslice))))
       (\<lambda>v. ds_setitem (bry_name ''Sinz'' b) bslice_4d v)"

definition temp_interp_expr ::
  "int \<Rightarrow> ncvar \<Rightarrow> ncvar \<Rightarrow> ix list \<Rightarrow> ix list \<Rightarrow> real ndarray \<Rightarrow> exn + real ndarray" where
  "temp_interp_expr nk toce tair cslice_4d aslice vsnon_written =
     (let snow_mask = np_map (\<lambda>x. x > 0.01) vsnon_written in
      bindE (var_getitem toce cslice_4d) (\<lambda>to.
      bindE (var_getitem tair aslice) (\<lambda>ta.
      bindE (np_linspace_int to ta nk) (\<lambda>temp_interp_ice.
      bindE (np_sub to ta) (\<lambda>diff.
      bindE (np_sub to (np_map ((*) 0.2) (np_map abs diff))) (\<lambda>stop.
      bindE (np_linspace_int to stop nk) (\<lambda>temp_interp_sno.
        np_where snow_mask temp_interp_sno temp_interp_ice)))))))"

definition step_Tinz ::
  "int \<Rightarrow> ncvar \<Rightarrow> ncvar \<Rightarrow> ncvar \<Rightarrow> bool ndarray \<Rightarrow> ix list \<Rightarrow> ix list \<Rightarrow> ix list \<Rightarrow> ix list
   \<Rightarrow> ix list \<Rightarrow> string \<Rightarrow> (dataset, unit) M" where
  "step_Tinz nk toce tair land_mask cat_mask cslice aslice cslice_4d bslice bslice_4d b =
     bindM (\<lambda>d. (bindE (ds_getitem d (bry_name ''vsnon'' b) bslice) (\<lambda>vs.
                  bindE (temp_interp_expr nk toce tair cslice_4d aslice vs) (\<lambda>temp_interp.
                    where_times_land cat_mask temp_interp (- 5) land_mask cslice)), d))
       (\<lambda>v. ds_setitem (bry_name ''Tinz'' b) bslice_4d v)"

definition zero_vars_3d :: "string list" where
  "zero_vars_3d = [''iage_BRY_bry'', ''apond_BRY_bry'', ''hpond_BRY_bry'', ''ipond_BRY_bry'',
                   ''fbrine_BRY_bry'', ''hbrine_BRY_bry'', ''alvln_BRY_bry'', ''vlvln_BRY_bry'']"

definition step_zero :: "ix list \<Rightarrow> string \<Rightarrow> (dataset, unit) M" where
  "step_zero bslice b =
     forM zero_vars_3d (\<lambda>var. ds_setitem (str_replace var ''BRY'' b) bslice (scalar 0))"

text \<open>The body of the innermost loop, for one time index, one category \<open>n\<close> and one
  boundary \<open>b\<close>.\<close>

definition bry_body ::
  "int \<Rightarrow> ncvar \<Rightarrow> ncvar \<Rightarrow> ncvar \<Rightarrow> ncvar \<Rightarrow> ncvar \<Rightarrow> ncvar \<Rightarrow> int \<Rightarrow> int \<Rightarrow> int \<Rightarrow> int \<Rightarrow> string
   \<Rightarrow> (dataset, unit) M" where
  "bry_body nk aice hice tair toce salt land_mask clm_idx atm_idx bry_idx n b =
     bindM (liftE (get_bry_slice ''clm_3d'' (Some clm_idx) (Some b) None)) (\<lambda>cslice.
     bindM (liftE (get_bry_slice ''clm_3d'' (Some atm_idx) (Some b) None)) (\<lambda>aslice.
     let bslice = [Ix bry_idx, Ix n, Sl] in
     bindM (liftE (cat_mask_expr hice cslice n)) (\<lambda>cat_mask.
     bindM (step_aicen aice land_mask cat_mask cslice bslice b) (\<lambda>u.
     bindM (step_vicen hice aice land_mask cat_mask cslice bslice b) (\<lambda>u.
     bindM (step_vsnon land_mask cat_mask cslice bslice b) (\<lambda>u.
     bindM (step_Tsfc tair land_mask cat_mask cslice aslice bslice b) (\<lambda>u.
     bindM (liftE (get_bry_slice ''clm_4d'' (Some clm_idx) (Some b) (Some (- 1)))) (\<lambda>cslice_4d.
     let bslice_4d = [Ix bry_idx, Ix n, Sl, Sl] in
     bindM (step_Sinz nk salt land_mask cat_mask cslice cslice_4d bslice_4d b) (\<lambda>u.
     bindM (step_Tinz nk toce tair land_mask cat_mask cslice aslice cslice_4d bslice bslice_4d b) (\<lambda>u.
     step_zero bslice b))))))))))"

text \<open>\<^verbatim>\<open>argmin\<close> of a one-dimensional array: the first index of the least value.\<close>

definition np_argmin :: "int list \<Rightarrow> exn + nat" where
  "np_argmin xs =
     (if xs = [] then Inl (ValueError ''attempt to get argmin of an empty sequence'' [])
      else Inr (hd (filter (\<lambda>i. xs ! i = fold min (tl xs) (hd xs)) [0..<length xs])))"

definition dim_size :: "'a CiceBry_scheme \<Rightarrow> string \<Rightarrow> exn + int" where
  "dim_size s key =
     bindE (dict_get self_dims key) (\<lambda>dn.
       case dim_sizes s of
         None \<Rightarrow> Inl (TypeError ''NoneType object is not subscriptable'' [])
       | Some sizes \<Rightarrow> dict_get sizes dn)"

definition dates_of :: "time_array \<Rightarrow> exn + datetime list" where
  "dates_of t = (case t of TDate ds \<Rightarrow> Inr ds | TFloat xs \<Rightarrow> Inl (TypeError ''datetime'' []))"

text \<open>One pass of the loop over the time indices of the climatology.\<close>

definition time_step ::
  "real list \<Rightarrow> datetime list \<Rightarrow> datetime list \<Rightarrow> nat \<Rightarrow> int \<Rightarrow> ncvar \<Rightarrow> ncvar \<Rightarrow> ncvar \<Rightarrow> ncvar
   \<Rightarrow> ncvar \<Rightarrow> ncvar \<Rightarrow> nat \<Rightarrow> ('a CiceBry_scheme, unit) M" where
  "time_step bry_time clm_dates atm_dates t0c_idx nk aice hice tair toce salt land_mask clm_idx =
     (let bry_idx = int clm_idx - int t0c_idx in
      bindM (liftE (bindE (list_get clm_dates (int clm_idx)) (\<lambda>cd.
                      np_argmin (map (\<lambda>ad. \<bar>ad - cd\<bar>) atm_dates)))) (\<lambda>atm_idx.
      bindM (liftE (list_get bry_time bry_idx)) (\<lambda>bt.
      bindM (on_bry (ds_setitem ''Time'' [Ix bry_idx] (scalar bt))) (\<lambda>u.
      forM [0..<length (tl cat_lims)] (\<lambda>n.
        forM bry_order (\<lambda>b.
          on_bry (bry_body nk aice hice tair toce salt land_mask (int clm_idx) (int atm_idx)
                    bry_idx (int n) b)))))))"

text \<open>What \<^verbatim>\<open>write_bry_data\<close> does once its three checks have passed.\<close>

definition write_bry_data_main ::
  "(pyval \<Rightarrow> real \<Rightarrow> datetime) \<Rightarrow> (datetime \<Rightarrow> pyval \<Rightarrow> real) \<Rightarrow> dataset \<Rightarrow> dataset \<Rightarrow> dataset
   \<Rightarrow> ('a CiceBry_scheme, unit) M" where
  "write_bry_data_main num2date date2num g c a =
     bindM (\<lambda>s. set_var_attr ''Time'' ''units'' (time_units s) True s) (\<lambda>u.
     bindM (\<lambda>s. (compute_bry_time num2date date2num s c ''clim_time'', s)) (\<lambda>bry_time.
     bindM (liftE (bindE (get_time_array num2date c ''clim_time'' RT_datetime) dates_of)) (\<lambda>clm_dates.
     bindM (liftE (bindE (get_time_array num2date a ''time'' RT_datetime) dates_of)) (\<lambda>atm_dates.
     bindM (\<lambda>s. (get_time_endpoints num2date s c ''clim_time'', s)) (\<lambda>(t0c_idx, t1c_idx).
     bindM (liftE (dict_get (ds_vars c) ''aice'')) (\<lambda>aice.
     bindM (liftE (dict_get (ds_vars c) ''hice'')) (\<lambda>hice.
     bindM (liftE (dict_get (ds_vars c) ''snow_thick'')) (\<lambda>hsno.
     bindM (liftE (dict_get (ds_vars a) ''Tair'')) (\<lambda>tair.
     bindM (liftE (dict_get (ds_vars c) ''temp'')) (\<lambda>toce.
     bindM (liftE (dict_get (ds_vars c) ''salt'')) (\<lambda>salt.
     bindM (liftE (dict_get (ds_vars g) ''mask_rho'')) (\<lambda>land_mask.
     bindM (\<lambda>s. (dim_size s ''z'', s)) (\<lambda>nk.
     bindM (on_bry (ds_setitem ''Ice_layers'' [Sl] (array1 (map real [0..<nat nk])))) (\<lambda>u.
     bindM (forM bry_order (\<lambda>b.
              bindM (liftE (get_bry_slice ''grid_2d'' None (Some b) None)) (\<lambda>grid_slice.
              bindM (liftE (ds_getitem g ''lon_rho'' grid_slice)) (\<lambda>lon.
              bindM (on_bry (ds_setitem (''TLON_'' @ b) [Sl] lon)) (\<lambda>u.
              bindM (liftE (ds_getitem g ''lat_rho'' grid_slice)) (\<lambda>lat.
                on_bry (ds_setitem (''TLAT_'' @ b) [Sl] lat))))))) (\<lambda>u.
     forM [t0c_idx..<t1c_idx + 1]
       (time_step bry_time clm_dates atm_dates t0c_idx nk aice hice tair toce salt land_mask))))))))))))))))"

text \<open>\<^verbatim>\<open>CiceBryHax.write_bry_data\<close>: the three checks, then the rest.\<close>

definition write_bry_data ::
  "(pyval \<Rightarrow> real \<Rightarrow> datetime) \<Rightarrow> (datetime \<Rightarrow> pyval \<Rightarrow> real) \<Rightarrow> ('a CiceBryHax_scheme, unit) M" where
  "write_bry_data num2date date2num = (\<lambda>s.
     case grid s of
       Absent \<Rightarrow> (Inl (AttributeError ''grid''), s)
     | PyNone \<Rightarrow> (Inl (AttributeError ''No grid file has been set! Use self.set_grid().''), s)
     | Val g \<Rightarrow>
        (case clm s of
           Absent \<Rightarrow> (Inl (AttributeError ''clm''), s)
         | PyNone \<Rightarrow> (Inl (AttributeError ''No clm file has been set! Use self.set_clm().''), s)
         | Val c \<Rightarrow>
            (case atm s of
               Absent \<Rightarrow> (Inl (AttributeError ''atm''), s)
             | PyNone \<Rightarrow> (Inl (AttributeError ''No atm file has been set! Use self.set_atm().''), s)
             | Val a \<Rightarrow> write_bry_data_main num2date date2num g c a s)))"


section \<open>A small input\<close>

text \<open>
  One pass of the loop body on a grid of two by two points with one time index and two
  vertical levels: at the western boundary the ice thickness is 1.0 at the first point and
  exactly the threshold 0.6445072 at the second; the concentration is 0.5, the land mask 1,
  the air temperature -10 and the ocean temperature -1. The boundary file holds the
  variables of the western boundary, five categories, nowhere written yet.
\<close>

definition ex_var3 :: "(nat list \<Rightarrow> real) \<Rightarrow> ncvar" where
  "ex_var3 f = \<lparr>var_dims = [''time'', ''eta_rho'', ''xi_rho''], var_shape = [1, 2, 2], var_data = f,
               var_attrs = []\<rparr>"

definition ex_hice :: ncvar where
  "ex_hice = ex_var3 (\<lambda>idx. if idx = [0, 0, 0] then 1 else if idx = [0, 1, 0] then 0.6445072 else 3)"








section \<open>Properties\<close>

subsection \<open>set_cice_rst\<close>

lemma lookup_glob: "lookup_global ''glob'' = Inl (NameError ''glob'')"
  by (simp add: lookup_global_def module_namespace_def)

lemma lookup_cice_files: "lookup_global ''cice_files'' = Inl (NameError ''cice_files'')"
  by (simp add: lookup_global_def module_namespace_def)

lemma wildcard_iff:
  "list_ex (\<lambda>w. sublist w cf) [''*'', ''?''] \<longleftrightarrow> CHR ''*'' \<in> set cf \<or> CHR ''?'' \<in> set cf"
proof -
  have "sublist [c] cf \<longleftrightarrow> c \<in> set cf" for c :: char
    by (induction cf) (auto simp: sublist_Cons_right)
  then show ?thesis by simp
qed

text \<open>
  Claim C10. For every argument string \<^verbatim>\<open>set_cice_rst\<close> raises \<^verbatim>\<open>NameError\<close>: for the name
  \<^verbatim>\<open>glob\<close> when the string holds one of the wildcards, and otherwise, after it has set
  \<^verbatim>\<open>self.cice_file\<close>, for the name \<^verbatim>\<open>cice_files\<close>. In both cases \<^verbatim>\<open>self.cice\<close> is what
  it was before the call.
\<close>

theorem set_cice_rst_name_error:
  "set_cice_rst sorted_glob cf s =
     (if CHR ''*'' \<in> set cf \<or> CHR ''?'' \<in> set cf
      then (Inl (NameError ''glob''), s)
      else (Inl (NameError ''cice_files''), s\<lparr>cice_file := Val [cf]\<rparr>))
   \<and> cice (snd (set_cice_rst sorted_glob cf s)) = cice s
   \<and> (\<exists>nm. fst (set_cice_rst sorted_glob cf s) = Inl (NameError nm))"
  using wildcard_iff[of cf]
  by (simp add: set_cice_rst_def bindM_def lookup_glob lookup_cice_files)

subsection \<open>The catalog and the constructor\<close>

lemma load_bry_vars_not_isl: "\<not> isl load_bry_vars"
  by code_simp

lemma load_bry_vars_catalog: "load_bry_vars = Inr catalog"
proof -
  have "Inr (projr load_bry_vars) = load_bry_vars"
    using load_bry_vars_not_isl by (rule sum.collapse(2))
  then show ?thesis
    unfolding catalog_def by (metis sum.case(2))
qed

lemma init_ok:
  assumes "md = ''w''" "files bf = None \<or> ow"
  shows "CiceBryHax_init files bf md fmt ow =
     (None, \<lparr>mode = md, bry_file = bf, dim_sizes = None, bry_vars = catalog, start_date = None,
             end_date = None, time_units = PNone, bry = Val (empty_dataset bf),
             grid_file = PyNone, grid = PyNone, clm_file = PyNone, clm = PyNone,
             atm_file = PyNone, atm = PyNone, cice_file = PyNone, cice = PyNone,
             cice_files = Absent\<rparr>)"
  using assms
  by (auto simp: CiceBryHax_init_def CiceBry_init_def load_bry_vars_catalog Let_def
      CiceBry.extend_def CiceBryHax.fields_def CiceBry.defs CiceBryHax.defs)

lemma init_bad_mode:
  assumes "md \<noteq> ''w''" "md \<noteq> ''r''"
  shows "CiceBryHax_init files bf md fmt ow =
     (Some (ValueError ''Invalid value {} for keyword mode'' [FStr md]),
      \<lparr>mode = md, bry_file = bf, dim_sizes = None, bry_vars = catalog, start_date = None,
             end_date = None, time_units = PNone, bry = Absent,
             grid_file = Absent, grid = Absent, clm_file = Absent, clm = Absent,
             atm_file = Absent, atm = Absent, cice_file = Absent, cice = Absent,
             cice_files = Absent\<rparr>)"
  using assms
  by (auto simp: CiceBryHax_init_def CiceBry_init_def load_bry_vars_catalog Let_def
      CiceBry.extend_def CiceBryHax.fields_def CiceBry.defs CiceBryHax.defs)

lemma init_failed_absent:
  assumes "CiceBryHax_init files bf md fmt ow = (Some e, s)"
  shows "bry s = Absent \<and> grid s = Absent \<and> clm s = Absent \<and> atm s = Absent"
  using assms
  by (auto simp: CiceBryHax_init_def CiceBry_init_def Let_def CiceBry.extend_def
        CiceBryHax.fields_def CiceBry.defs CiceBryHax.defs
        split: sum.splits prod.splits option.splits if_splits)

subsection \<open>omnibry_var\<close>

lemma str_replace_prefix_source:
  assumes "old \<noteq> []" "new \<noteq> []" "set p \<inter> set new = {}"
  shows "prefix p (str_replace s old new) \<Longrightarrow> prefix p s"
  using assms
proof (induction s old new arbitrary: p rule: str_replace.induct)
  case (1 old new)
  then show ?case by simp
next
  case (2 c cs old new)
  show ?case
  proof (cases "prefix old (c # cs)")
    case True
    with 2 have pre: "prefix p (new @ str_replace (drop (length old) (c # cs)) old new)" by simp
    show ?thesis
    proof (cases p)
      case Nil
      then show ?thesis by simp
    next
      case (Cons x xs)
      from 2 obtain y ys where new: "new = y # ys" by (cases new) auto
      from pre Cons new have "x = y" by simp
      with Cons new 2 show ?thesis by auto
    qed
  next
    case False
    with 2 have pre: "prefix p (c # str_replace cs old new)" by simp
    show ?thesis
    proof (cases p)
      case Nil
      then show ?thesis by simp
    next
      case (Cons x xs)
      with pre have "x = c" "prefix xs (str_replace cs old new)" by simp_all
      moreover have "set xs \<inter> set new = {}" using 2 Cons by auto
      ultimately have "prefix xs cs" using 2 False by auto
      with \<open>x = c\<close> Cons show ?thesis by simp
    qed
  qed
qed

text \<open>When the replacement is not empty and shares no character with the token, no
  occurrence of the token is left.\<close>

lemma str_replace_no_occurrence:
  assumes "old \<noteq> []" "new \<noteq> []" "set old \<inter> set new = {}"
  shows "\<not> sublist old (str_replace s old new)"
  using assms
proof (induction s old new rule: str_replace.induct)
  case (1 old new)
  then show ?case by simp
next
  case (2 c cs old new)
  show ?case
  proof (cases "prefix old (c # cs)")
    case True
    have ih: "\<not> sublist old (str_replace (drop (length old) (c # cs)) old new)"
      using 2 True by auto
    obtain oh ot where old: "old = oh # ot" using 2 by (cases old) auto
    have "\<not> sublist old (ys @ r)" if "set ys \<subseteq> set new" "\<not> sublist old r" for ys r
      using that
    proof (induction ys)
      case Nil
      then show ?case by simp
    next
      case (Cons y ys)
      have "y \<in> set new" using Cons.prems(1) by simp
      moreover have "oh \<notin> set new" using "2.prems"(3) old by auto
      ultimately have "\<not> prefix old (y # ys @ r)" using old by auto
      with Cons show ?case by (simp add: sublist_Cons_right)
    qed
    from this[of new, OF _ ih] show ?thesis using 2 True by simp
  next
    case False
    have ih: "\<not> sublist old (str_replace cs old new)" using 2 False by auto
    have "\<not> prefix old (c # str_replace cs old new)"
    proof
      assume pre: "prefix old (c # str_replace cs old new)"
      have "c # str_replace cs old new = str_replace (c # cs) old new" using 2 False by simp
      with pre have "prefix old (str_replace (c # cs) old new)" by simp
      then have "prefix old (c # cs)"
        using str_replace_prefix_source[of old new old "c # cs"] "2.prems" by blast
      with False show False by simp
    qed
    with ih show ?thesis using 2 False by (simp add: sublist_Cons_right)
  qed
qed

lemma update_append_notin:
  "k \<notin> fst ` set xs \<Longrightarrow> AList.update k v (xs @ ys) = xs @ AList.update k v ys"
  by (induction xs) auto

lemma replace_attrs_inv:
  "distinct (map fst (done @ items)) \<Longrightarrow>
   replace_attrs (map (\<lambda>(k, v). (k, PStr v)) items)
       (map (\<lambda>(k, v). (k, PStr (str_replace v old new))) done @ map (\<lambda>(k, v). (k, PStr v)) items) old new
     = Inr (map (\<lambda>(k, v). (k, PStr (str_replace v old new))) (done @ items))"
proof (induction items arbitrary: "done")
  case Nil
  then show ?case by simp
next
  case (Cons kv items)
  obtain k v where kv: "kv = (k, v)" by (cases kv)
  let ?f = "\<lambda>(k, v). (k, PStr (str_replace v old new))"
  let ?g = "\<lambda>(k, v). (k, PStr v)"
  have notin: "k \<notin> fst ` set (map ?f done)"
    using Cons.prems kv by (auto simp: image_iff)
  have upd: "AList.update k (PStr (str_replace v old new)) (map ?f done @ (k, PStr v) # map ?g items)
      = map ?f (done @ [(k, v)]) @ map ?g items"
    using notin by (simp add: update_append_notin)
  have "distinct (map fst ((done @ [(k, v)]) @ items))" using Cons.prems kv by simp
  then have "replace_attrs (map ?g items) (map ?f (done @ [(k, v)]) @ map ?g items) old new
      = Inr (map ?f ((done @ [(k, v)]) @ items))"
    by (rule Cons.IH)
  then show ?case using upd kv by (simp add: val_replace_def bindE_def)
qed

lemma replace_attrs_all:
  assumes "distinct (map fst sats)"
  shows "replace_attrs (map (\<lambda>(k, v). (k, PStr v)) sats) (map (\<lambda>(k, v). (k, PStr v)) sats) old new
     = Inr (map (\<lambda>(k, v). (k, PStr (str_replace v old new))) sats)"
  using replace_attrs_inv[of "[]" sats old new] assms by simp

lemma omnibry_var_eq:
  assumes "distinct (map fst sats)"
  shows "omnibry_var nm dt ds (map (\<lambda>(k, v). (k, PStr v)) sats) tok =
      Inr (map (\<lambda>(b, coor).
             \<lparr>name = str_replace nm tok b, dtype = dt,
              dims = map (\<lambda>d. str_replace d tok coor) ds,
              attrs = map (\<lambda>(k, v). (k, PStr (str_replace v tok b))) sats\<rparr>)
           [(''W'', ''eta_t''), (''S'', ''xi_t''), (''E'', ''eta_t''), (''N'', ''xi_t'')])"
  by (simp add: omnibry_var_def bry_order_def replace_attrs_all[OF assms] bindE_def dict_get_def
      bry_to_coor_def)

text \<open>
  Claim C4. For a template whose attribute values are strings (and whose attributes, a
  dict, have distinct keys), \<^verbatim>\<open>omnibry_var\<close> returns exactly four specs, for W, S, E, N in
  this order: the name and every attribute value with the token replaced by the direction
  letter (\<^verbatim>\<open>str.replace\<close>: every occurrence, from the left), every dimension name with the
  token replaced by the axis of the direction, \<^verbatim>\<open>eta_t\<close> for W and E, \<^verbatim>\<open>xi_t\<close> for S and N.
  When the token is not empty and shares no character with the direction letters and the
  axis names, as the default \<^verbatim>\<open>BRY\<close> does, no occurrence of the token is left in any name,
  dimension name or attribute value of the result.
\<close>

theorem omnibry_var_expands:
  assumes "distinct (map fst sats)"
  shows "omnibry_var nm dt ds (map (\<lambda>(k, v). (k, PStr v)) sats) tok =
      Inr (map (\<lambda>(b, coor).
             \<lparr>name = str_replace nm tok b, dtype = dt,
              dims = map (\<lambda>d. str_replace d tok coor) ds,
              attrs = map (\<lambda>(k, v). (k, PStr (str_replace v tok b))) sats\<rparr>)
           [(''W'', ''eta_t''), (''S'', ''xi_t''), (''E'', ''eta_t''), (''N'', ''xi_t'')])
    \<and> (tok \<noteq> [] \<and> (\<forall>r \<in> set (bry_order @ map snd bry_to_coor). set tok \<inter> set r = {}) \<longrightarrow>
         (\<forall>bv \<in> set (projr (omnibry_var nm dt ds (map (\<lambda>(k, v). (k, PStr v)) sats) tok)).
            \<not> sublist tok (name bv) \<and> (\<forall>d \<in> set (dims bv). \<not> sublist tok d)
            \<and> (\<forall>(k, a) \<in> set (attrs bv). \<forall>v. a = PStr v \<longrightarrow> \<not> sublist tok v)))"
proof (intro conjI impI)
  show "omnibry_var nm dt ds (map (\<lambda>(k, v). (k, PStr v)) sats) tok =
      Inr (map (\<lambda>(b, coor).
             \<lparr>name = str_replace nm tok b, dtype = dt,
              dims = map (\<lambda>d. str_replace d tok coor) ds,
              attrs = map (\<lambda>(k, v). (k, PStr (str_replace v tok b))) sats\<rparr>)
           [(''W'', ''eta_t''), (''S'', ''xi_t''), (''E'', ''eta_t''), (''N'', ''xi_t'')])"
    using assms by (rule omnibry_var_eq)
next
  assume a: "tok \<noteq> [] \<and> (\<forall>r \<in> set (bry_order @ map snd bry_to_coor). set tok \<inter> set r = {})"
  have no: "\<not> sublist tok (str_replace s tok r)"
    if "r \<in> {''W'', ''S'', ''E'', ''N'', ''eta_t'', ''xi_t''}" for s r
  proof -
    from that a have "set tok \<inter> set r = {}"
      by (auto simp: bry_order_def bry_to_coor_def)
    moreover from that have "r \<noteq> []" by auto
    ultimately show ?thesis using a by (simp add: str_replace_no_occurrence)
  qed
  show "\<forall>bv \<in> set (projr (omnibry_var nm dt ds (map (\<lambda>(k, v). (k, PStr v)) sats) tok)).
            \<not> sublist tok (name bv) \<and> (\<forall>d \<in> set (dims bv). \<not> sublist tok d)
            \<and> (\<forall>(k, a) \<in> set (attrs bv). \<forall>v. a = PStr v \<longrightarrow> \<not> sublist tok v)"
    unfolding omnibry_var_eq[OF assms] by (auto simp: no)
qed

theorem omnibry_var_expands_witness:
  "distinct (map fst [(''long_name'', ''ice area (aggregate) - BRY boundary'')])
   \<and> omnibry_var ''aicen_BRY_bry'' Float [''days'', ''ice_types'', ''BRY'']
        [(''long_name'', PStr ''ice area (aggregate) - BRY boundary'')] ''BRY'' =
      Inr [\<lparr>name = ''aicen_W_bry'', dtype = Float, dims = [''days'', ''ice_types'', ''eta_t''],
            attrs = [(''long_name'', PStr ''ice area (aggregate) - W boundary'')]\<rparr>,
           \<lparr>name = ''aicen_S_bry'', dtype = Float, dims = [''days'', ''ice_types'', ''xi_t''],
            attrs = [(''long_name'', PStr ''ice area (aggregate) - S boundary'')]\<rparr>,
           \<lparr>name = ''aicen_E_bry'', dtype = Float, dims = [''days'', ''ice_types'', ''eta_t''],
            attrs = [(''long_name'', PStr ''ice area (aggregate) - E boundary'')]\<rparr>,
           \<lparr>name = ''aicen_N_bry'', dtype = Float, dims = [''days'', ''ice_types'', ''xi_t''],
            attrs = [(''long_name'', PStr ''ice area (aggregate) - N boundary'')]\<rparr>]"
  using omnibry_var_expands[of "[(''long_name'', ''ice area (aggregate) - BRY boundary'')]"
      "''aicen_BRY_bry''" Float "[''days'', ''ice_types'', ''BRY'']" "''BRY''"]
  by (simp add: bry_order_def bry_to_coor_def)

subsection \<open>get_time_endpoints\<close>

lemma where_eq_empty: "where_eq (TDate ds) d = [] \<longleftrightarrow> d \<notin> set ds"
  by (auto simp: where_eq_def filter_empty_conv in_set_conv_nth)

lemma sorted_hd_le: "sorted xs \<Longrightarrow> k \<in> set xs \<Longrightarrow> hd xs \<le> (k::nat)"
  by (cases xs) auto

lemma hd_where_eq_first:
  assumes "d \<in> set ds"
  shows "hd (where_eq (TDate ds) d) < length ds
       \<and> ds ! hd (where_eq (TDate ds) d) = d
       \<and> (\<forall>k < hd (where_eq (TDate ds) d). ds ! k \<noteq> d)"
proof -
  define f where "f = filter (\<lambda>i. ds ! i = d) [0..<length ds]"
  have w: "where_eq (TDate ds) d = f" by (simp add: where_eq_def f_def)
  from assms have ne: "f \<noteq> []" unfolding f_def by (auto simp: filter_empty_conv in_set_conv_nth)
  then have "hd f \<in> set f" by (rule hd_in_set)
  then have 1: "hd f < length ds" "ds ! hd f = d" unfolding f_def by auto
  have srt: "sorted f" unfolding f_def by (simp add: sorted_wrt_filter)
  have 2: "ds ! k \<noteq> d" if "k < hd f" for k
  proof
    assume "ds ! k = d"
    moreover from that 1 have "k < length ds" by simp
    ultimately have "k \<in> set f" unfolding f_def by simp
    with srt have "hd f \<le> k" by (rule sorted_hd_le)
    with that show False by simp
  qed
  from 1 2 show ?thesis unfolding w by blast
qed

lemma get_time_endpoints_eq:
  assumes "start_date s = Some sd" "end_date s = Some ed"
    and "get_time_array num2date nc_file time_name RT_datetime = Inr (TDate time)"
  shows "get_time_endpoints num2date s nc_file time_name =
      (if sd \<notin> set time then Inl (ValueError ''Start date {} not in {}!'' [FDate sd, FStr (ds_path nc_file)])
       else if ed \<notin> set time then Inl (ValueError ''End date {} not in {}!'' [FDate ed, FStr (ds_path nc_file)])
       else Inr (hd (where_eq (TDate time) sd), hd (where_eq (TDate time) ed)))"
  using assms where_eq_empty[of time sd] where_eq_empty[of time ed]
  by (simp add: get_time_endpoints_def bindE_def Let_def)

text \<open>
  Claim C5. With both dates configured and the time axis of the file decoded to the
  dates \<open>time\<close>: when both dates occur in \<open>time\<close>, \<^verbatim>\<open>get_time_endpoints\<close> returns for each
  the first index at which \<open>time\<close> equals it exactly, so the index decodes back to the
  date; when the start date does not occur it raises the error that names the start date
  and the path of the file; when only the end date does not occur, the error that names
  the end date and the path.
\<close>

theorem get_time_endpoints_exact:
  assumes "start_date s = Some sd" "end_date s = Some ed"
    and "get_time_array num2date nc_file time_name RT_datetime = Inr (TDate time)"
  shows "(sd \<in> set time \<and> ed \<in> set time \<longrightarrow>
            (\<exists>i j. get_time_endpoints num2date s nc_file time_name = Inr (i, j)
               \<and> i < length time \<and> time ! i = sd \<and> (\<forall>k<i. time ! k \<noteq> sd)
               \<and> j < length time \<and> time ! j = ed \<and> (\<forall>k<j. time ! k \<noteq> ed)))
       \<and> (sd \<notin> set time \<longrightarrow>
            get_time_endpoints num2date s nc_file time_name =
              Inl (ValueError ''Start date {} not in {}!'' [FDate sd, FStr (ds_path nc_file)]))
       \<and> (sd \<in> set time \<and> ed \<notin> set time \<longrightarrow>
            get_time_endpoints num2date s nc_file time_name =
              Inl (ValueError ''End date {} not in {}!'' [FDate ed, FStr (ds_path nc_file)]))"
proof (intro conjI impI)
  assume a: "sd \<in> set time \<and> ed \<in> set time"
  then have "get_time_endpoints num2date s nc_file time_name =
      Inr (hd (where_eq (TDate time) sd), hd (where_eq (TDate time) ed))"
    by (simp add: get_time_endpoints_eq[OF assms])
  with hd_where_eq_first[of sd time] hd_where_eq_first[of ed time] a
  show "\<exists>i j. get_time_endpoints num2date s nc_file time_name = Inr (i, j)
               \<and> i < length time \<and> time ! i = sd \<and> (\<forall>k<i. time ! k \<noteq> sd)
               \<and> j < length time \<and> time ! j = ed \<and> (\<forall>k<j. time ! k \<noteq> ed)"
    by blast
next
  assume "sd \<notin> set time"
  then show "get_time_endpoints num2date s nc_file time_name =
              Inl (ValueError ''Start date {} not in {}!'' [FDate sd, FStr (ds_path nc_file)])"
    by (simp add: get_time_endpoints_eq[OF assms])
next
  assume "sd \<in> set time \<and> ed \<notin> set time"
  then show "get_time_endpoints num2date s nc_file time_name =
              Inl (ValueError ''End date {} not in {}!'' [FDate ed, FStr (ds_path nc_file)])"
    by (simp add: get_time_endpoints_eq[OF assms])
qed



theorem get_time_endpoints_exact_witness:
  "start_date \<lparr>mode = ''w'', bry_file = ''bry.nc'', dim_sizes = None, bry_vars = [],
       start_date = Some 86400000000, end_date = Some 172800000000, time_units = PNone,
       bry = Absent\<rparr> = Some 86400000000
   \<and> get_time_array (\<lambda>u x. \<lfloor>x\<rfloor> * 86400000000)
        \<lparr>ds_path = ''clm.nc'', ds_open = True, ds_dims = [(''clim_time'', 3)],
         ds_vars = [(''clim_time'', \<lparr>var_dims = [''clim_time''], var_shape = [3],
                       var_data = (\<lambda>idx. real (hd idx)),
                       var_attrs = [(''units'', PStr ''days since 1970-01-01'')]\<rparr>)],
         ds_attrs = []\<rparr> ''clim_time'' RT_datetime = Inr (TDate [0, 86400000000, 172800000000])
   \<and> (\<exists>i j. get_time_endpoints (\<lambda>u x. \<lfloor>x\<rfloor> * 86400000000)
        \<lparr>mode = ''w'', bry_file = ''bry.nc'', dim_sizes = None, bry_vars = [],
         start_date = Some 86400000000, end_date = Some 172800000000, time_units = PNone,
         bry = Absent\<rparr>
        \<lparr>ds_path = ''clm.nc'', ds_open = True, ds_dims = [(''clim_time'', 3)],
         ds_vars = [(''clim_time'', \<lparr>var_dims = [''clim_time''], var_shape = [3],
                       var_data = (\<lambda>idx. real (hd idx)),
                       var_attrs = [(''units'', PStr ''days since 1970-01-01'')]\<rparr>)],
         ds_attrs = []\<rparr> ''clim_time'' = Inr (i, j)
        \<and> [0, 86400000000, 172800000000] ! i = (86400000000::int)
        \<and> [0, 86400000000, 172800000000] ! j = (172800000000::int))"
proof -
  let ?s = "\<lparr>mode = ''w'', bry_file = ''bry.nc'', dim_sizes = None, bry_vars = [],
       start_date = Some 86400000000, end_date = Some 172800000000, time_units = PNone,
       bry = Absent\<rparr>"
  let ?nc = "\<lparr>ds_path = ''clm.nc'', ds_open = True, ds_dims = [(''clim_time'', 3)],
         ds_vars = [(''clim_time'', \<lparr>var_dims = [''clim_time''], var_shape = [3],
                       var_data = (\<lambda>idx. real (hd idx)),
                       var_attrs = [(''units'', PStr ''days since 1970-01-01'')]\<rparr>)],
         ds_attrs = []\<rparr>"
  have u: "[0..<3] = [0, 1, 2]" by (simp add: upt_rec)
  have ta: "get_time_array (\<lambda>u x. \<lfloor>x\<rfloor> * 86400000000) ?nc ''clim_time'' RT_datetime
      = Inr (TDate [0, 86400000000, 172800000000])"
    by (simp add: get_time_array_def dict_get_def bindE_def var_getitem_def getitem_def
        to_list_def u)
  have s1: "start_date ?s = Some 86400000000" and s2: "end_date ?s = Some 172800000000"
    by simp_all
  from get_time_endpoints_exact[OF s1 s2 ta] ta show ?thesis by auto
qed

subsection \<open>write_bry_data: the checks come first\<close>

text \<open>
  Claim C7. On an object whose constructor returned, when one of \<^verbatim>\<open>grid\<close>, \<^verbatim>\<open>clm\<close>,
  \<^verbatim>\<open>atm\<close> is still \<^verbatim>\<open>None\<close>, \<^verbatim>\<open>write_bry_data\<close> raises \<^verbatim>\<open>AttributeError\<close> with the message
  that names the first missing source (in the order grid, clm, atm), and the object,
  the boundary file included, is exactly as it was before the call.
\<close>

theorem write_bry_data_checks_first:
  assumes "grid s \<noteq> Absent" "clm s \<noteq> Absent" "atm s \<noteq> Absent"
    and "grid s = PyNone \<or> clm s = PyNone \<or> atm s = PyNone"
  shows "write_bry_data num2date date2num s =
     (Inl (AttributeError
        (if grid s = PyNone then ''No grid file has been set! Use self.set_grid().''
         else if clm s = PyNone then ''No clm file has been set! Use self.set_clm().''
         else ''No atm file has been set! Use self.set_atm().'')), s)"
proof (cases "grid s")
  case Absent
  with assms show ?thesis by simp
next
  case PyNone
  then show ?thesis by (simp add: write_bry_data_def)
next
  case g: (Val g)
  show ?thesis
  proof (cases "clm s")
    case Absent
    with assms show ?thesis by simp
  next
    case PyNone
    with g show ?thesis by (simp add: write_bry_data_def)
  next
    case c: (Val c)
    show ?thesis
    proof (cases "atm s")
      case Absent
      with assms show ?thesis by simp
    next
      case PyNone
      with g c show ?thesis by (simp add: write_bry_data_def)
    next
      case (Val a)
      with g c assms show ?thesis by simp
    qed
  qed
qed

lemma set_grid_ok:
  "files gf = Some d \<Longrightarrow>
   set_grid files gf s = (Inr (), s\<lparr>grid_file := Val gf, grid := Val (d\<lparr>ds_path := gf, ds_open := True\<rparr>)\<rparr>)"
  by (simp add: set_grid_def bindM_def liftE_def open_read_def)

theorem write_bry_data_checks_first_witness:
  "write_bry_data (\<lambda>u x. 0) (\<lambda>d u. 0)
      (snd (CiceBryHax_init (\<lambda>p. None) ''bry.nc'' ''w'' ''NETCDF4'' True)) =
     (Inl (AttributeError ''No grid file has been set! Use self.set_grid().''),
      snd (CiceBryHax_init (\<lambda>p. None) ''bry.nc'' ''w'' ''NETCDF4'' True))
   \<and> write_bry_data (\<lambda>u x. 0) (\<lambda>d u. 0)
      (snd (set_grid (\<lambda>p. if p = ''grid.nc'' then Some (empty_dataset p) else None) ''grid.nc''
         (snd (CiceBryHax_init (\<lambda>p. None) ''bry.nc'' ''w'' ''NETCDF4'' True)))) =
     (Inl (AttributeError ''No clm file has been set! Use self.set_clm().''),
      snd (set_grid (\<lambda>p. if p = ''grid.nc'' then Some (empty_dataset p) else None) ''grid.nc''
         (snd (CiceBryHax_init (\<lambda>p. None) ''bry.nc'' ''w'' ''NETCDF4'' True))))"
proof -
  let ?s0 = "snd (CiceBryHax_init (\<lambda>p. None) ''bry.nc'' ''w'' ''NETCDF4'' True)"
  let ?s1 = "snd (set_grid (\<lambda>p. if p = ''grid.nc'' then Some (empty_dataset p) else None) ''grid.nc'' ?s0)"
  have a: "grid ?s0 = PyNone" "clm ?s0 = PyNone" "atm ?s0 = PyNone"
    by (simp_all add: init_ok)
  have b: "grid ?s1 = Val (empty_dataset ''grid.nc'')" "clm ?s1 = PyNone" "atm ?s1 = PyNone"
    by (simp_all add: init_ok set_grid_ok empty_dataset_def)
  from write_bry_data_checks_first[of ?s0 "\<lambda>u x. 0" "\<lambda>d u. 0"] a
  have 1: "write_bry_data (\<lambda>u x. 0) (\<lambda>d u. 0) ?s0 =
     (Inl (AttributeError ''No grid file has been set! Use self.set_grid().''), ?s0)"
    by simp
  from write_bry_data_checks_first[of ?s1 "\<lambda>u x. 0" "\<lambda>d u. 0"] b
  have 2: "write_bry_data (\<lambda>u x. 0) (\<lambda>d u. 0) ?s1 =
     (Inl (AttributeError ''No clm file has been set! Use self.set_clm().''), ?s1)"
    by simp
  from 1 2 show ?thesis by simp
qed


subsection \<open>Disposal\<close>

lemma close_source_ok:
  "close_source h =
     Inr (case h of Val d \<Rightarrow> Val (d\<lparr>ds_open := False\<rparr>) | PyNone \<Rightarrow> PyNone | Absent \<Rightarrow> Absent)"
  by (simp add: close_source_def ds_close_def bindE_def split: attr.splits)

lemma CiceBryHax_del_eq:
  "bry s \<noteq> PyNone \<Longrightarrow>
   CiceBryHax_del s =
     (Inr (), s\<lparr>grid := (case grid s of Val d \<Rightarrow> Val (d\<lparr>ds_open := False\<rparr>) | h \<Rightarrow> h),
               clm := (case clm s of Val d \<Rightarrow> Val (d\<lparr>ds_open := False\<rparr>) | h \<Rightarrow> h),
               atm := (case atm s of Val d \<Rightarrow> Val (d\<lparr>ds_open := False\<rparr>) | h \<Rightarrow> h),
               bry := (case bry s of Val d \<Rightarrow> Val (d\<lparr>ds_open := False\<rparr>) | h \<Rightarrow> h)\<rparr>)"
  by (cases "bry s")
     (auto simp: CiceBryHax_del_def CiceBry_del_def bindM_def close_source_ok ds_close_def
        split: attr.splits)

text \<open>
  Claim C8. \<^verbatim>\<open>bry\<close> is never \<^verbatim>\<open>None\<close>: the constructor sets it to a dataset or not at all.
  On such an object the destructor raises nothing, and afterwards each of the four handles
  is closed if it was a dataset and is otherwise as it was (absent, or \<^verbatim>\<open>None\<close>); a
  second disposal raises nothing and changes nothing. On the object that a failed
  constructor leaves, disposal raises nothing and changes nothing. A dataset that is not
  open is passed over, where a direct call of its \<^verbatim>\<open>close\<close> would raise.
\<close>

theorem disposal_safe_idempotent:
  "(bry s \<noteq> PyNone \<longrightarrow>
      CiceBryHax_del s =
        (Inr (), s\<lparr>grid := (case grid s of Val d \<Rightarrow> Val (d\<lparr>ds_open := False\<rparr>) | h \<Rightarrow> h),
                  clm := (case clm s of Val d \<Rightarrow> Val (d\<lparr>ds_open := False\<rparr>) | h \<Rightarrow> h),
                  atm := (case atm s of Val d \<Rightarrow> Val (d\<lparr>ds_open := False\<rparr>) | h \<Rightarrow> h),
                  bry := (case bry s of Val d \<Rightarrow> Val (d\<lparr>ds_open := False\<rparr>) | h \<Rightarrow> h)\<rparr>)
      \<and> CiceBryHax_del (snd (CiceBryHax_del s)) = (Inr (), snd (CiceBryHax_del s)))
   \<and> (CiceBryHax_init files bf md fmt ow = (Some e, s0) \<longrightarrow> CiceBryHax_del s0 = (Inr (), s0))
   \<and> (\<not> ds_open d \<longrightarrow> close_source (Val d) = Inr (Val d) \<and> ds_close d \<noteq> Inr d)"
proof (intro conjI impI)
  assume b: "bry s \<noteq> PyNone"
  let ?c = "\<lambda>x. case x of Val d \<Rightarrow> Val (d\<lparr>ds_open := False\<rparr>) | h \<Rightarrow> h"
  let ?s' = "s\<lparr>grid := ?c (grid s), clm := ?c (clm s), atm := ?c (atm s), bry := ?c (bry s)\<rparr>"
  show 1: "CiceBryHax_del s = (Inr (), ?s')" using b by (rule CiceBryHax_del_eq)
  have "bry ?s' \<noteq> PyNone" using b by (simp split: attr.splits)
  then have "CiceBryHax_del ?s' =
      (Inr (), ?s'\<lparr>grid := ?c (grid ?s'), clm := ?c (clm ?s'), atm := ?c (atm ?s'), bry := ?c (bry ?s')\<rparr>)"
    by (rule CiceBryHax_del_eq)
  moreover have "?c (?c x) = ?c x" for x :: "dataset attr" by (simp split: attr.splits)
  ultimately have "CiceBryHax_del ?s' = (Inr (), ?s')" by simp
  with 1 show "CiceBryHax_del (snd (CiceBryHax_del s)) = (Inr (), snd (CiceBryHax_del s))" by simp
next
  assume "CiceBryHax_init files bf md fmt ow = (Some e, s0)"
  then have "bry s0 = Absent \<and> grid s0 = Absent \<and> clm s0 = Absent \<and> atm s0 = Absent"
    by (rule init_failed_absent)
  then show "CiceBryHax_del s0 = (Inr (), s0)"
    by (simp add: CiceBryHax_del_eq)
next
  assume "\<not> ds_open d"
  then show "close_source (Val d) = Inr (Val d)" by (simp add: close_source_def)
next
  assume "\<not> ds_open d"
  then show "ds_close d \<noteq> Inr d" by (simp add: ds_close_def)
qed

theorem disposal_safe_idempotent_witness:
  "bry (snd (CiceBryHax_init (\<lambda>p. None) ''bry.nc'' ''w'' ''NETCDF4'' True)) \<noteq> PyNone
   \<and> bry (snd (CiceBryHax_del (snd (CiceBryHax_init (\<lambda>p. None) ''bry.nc'' ''w'' ''NETCDF4'' True))))
       = Val ((empty_dataset ''bry.nc'')\<lparr>ds_open := False\<rparr>)
   \<and> CiceBryHax_del (snd (CiceBryHax_del (snd (CiceBryHax_init (\<lambda>p. None) ''bry.nc'' ''w'' ''NETCDF4'' True))))
       = (Inr (), snd (CiceBryHax_del (snd (CiceBryHax_init (\<lambda>p. None) ''bry.nc'' ''w'' ''NETCDF4'' True))))
   \<and> fst (CiceBryHax_init (\<lambda>p. None) ''bry.nc'' ''x'' ''NETCDF4'' True)
       = Some (ValueError ''Invalid value {} for keyword mode'' [FStr ''x''])
   \<and> CiceBryHax_del (snd (CiceBryHax_init (\<lambda>p. None) ''bry.nc'' ''x'' ''NETCDF4'' True))
       = (Inr (), snd (CiceBryHax_init (\<lambda>p. None) ''bry.nc'' ''x'' ''NETCDF4'' True))"
proof -
  let ?s0 = "snd (CiceBryHax_init (\<lambda>p. None) ''bry.nc'' ''w'' ''NETCDF4'' True)"
  let ?r = "CiceBryHax_init (\<lambda>p. None) ''bry.nc'' ''x'' ''NETCDF4'' True"
  have b: "bry ?s0 = Val (empty_dataset ''bry.nc'')" by (simp add: init_ok)
  have x: "?r = (Some (ValueError ''Invalid value {} for keyword mode'' [FStr ''x'']), snd ?r)"
    by (simp add: init_bad_mode)
  note t0 = disposal_safe_idempotent[of ?s0 "\<lambda>p. None" "''bry.nc''" "''x''" "''NETCDF4''" True
      "ValueError ''Invalid value {} for keyword mode'' [FStr ''x'']" "snd ?r" "empty_dataset ''bry.nc''"]
  have nb: "bry ?s0 \<noteq> PyNone" using b by simp
  from t0 have A: "CiceBryHax_del ?s0 =
        (Inr (), ?s0\<lparr>grid := (case grid ?s0 of Val d \<Rightarrow> Val (d\<lparr>ds_open := False\<rparr>) | h \<Rightarrow> h),
                  clm := (case clm ?s0 of Val d \<Rightarrow> Val (d\<lparr>ds_open := False\<rparr>) | h \<Rightarrow> h),
                  atm := (case atm ?s0 of Val d \<Rightarrow> Val (d\<lparr>ds_open := False\<rparr>) | h \<Rightarrow> h),
                  bry := (case bry ?s0 of Val d \<Rightarrow> Val (d\<lparr>ds_open := False\<rparr>) | h \<Rightarrow> h)\<rparr>)
      \<and> CiceBryHax_del (snd (CiceBryHax_del ?s0)) = (Inr (), snd (CiceBryHax_del ?s0))"
    using nb by blast
  from A have 1: "CiceBryHax_del (snd (CiceBryHax_del ?s0)) = (Inr (), snd (CiceBryHax_del ?s0))"
    by (rule conjunct2)
  from A[THEN conjunct1] b
  have 2: "bry (snd (CiceBryHax_del ?s0)) = Val ((empty_dataset ''bry.nc'')\<lparr>ds_open := False\<rparr>)"
    by simp
  from t0 x have 3: "CiceBryHax_del (snd ?r) = (Inr (), snd ?r)" by blast
  from x have 4: "fst ?r = Some (ValueError ''Invalid value {} for keyword mode'' [FStr ''x''])"
    by (metis fst_conv)
  from nb 1 2 3 4 show ?thesis by blast
qed


subsection \<open>verify_variables\<close>

lemma bry_keys_eq: "bry s = Val d \<Longrightarrow> bry_keys s = (Inr (map fst (ds_vars d)), s)"
  by (simp add: bry_keys_def on_bry_def)

lemma loop1_eq:
  assumes "bry s = Val d"
  shows "forM vs (\<lambda>var. bindM bry_keys (\<lambda>keys s.
            if name var \<notin> set keys
            then (Inl (ValueError ''Variable {} not in file {}!'' [FStr (name var), FStr (bry_file s)]), s)
            else (Inr (), s))) s =
     (case find (\<lambda>v. name v \<notin> fst ` set (ds_vars d)) vs of
        None \<Rightarrow> (Inr (), s)
      | Some v \<Rightarrow> (Inl (ValueError ''Variable {} not in file {}!'' [FStr (name v), FStr (bry_file s)]), s))"
  using assms
  by (induction vs) (auto simp: returnM_def bindM_def bry_keys_eq)

lemma rename_last_twice:
  "bry_vars s \<noteq> [] \<Longrightarrow> rename_last k' (rename_last k s) = rename_last k' s"
  by (simp add: rename_last_def last_conv_nth)

lemma rename_last_nonempty: "bry_vars s \<noteq> [] \<Longrightarrow> bry_vars (rename_last k s) \<noteq> []"
  by (simp add: rename_last_def)

lemma assign_var_name_eq:
  "bry_vars s \<noteq> [] \<Longrightarrow> assign_var_name k s = (Inr (), rename_last k s)"
  by (simp add: assign_var_name_def rename_last_def)

lemma loop2_eq:
  assumes "bry_vars s \<noteq> []"
  shows "forM keys (\<lambda>k. bindM (assign_var_name k) (\<lambda>u.
            if k \<notin> set necessary
            then raiseM (ValueError ''Variable {} is not needed in CICE bry file!'' [FStr k])
            else returnM ())) s =
     (case find (\<lambda>k. k \<notin> set necessary) keys of
        Some k \<Rightarrow> (Inl (ValueError ''Variable {} is not needed in CICE bry file!'' [FStr k]), rename_last k s)
      | None \<Rightarrow> (Inr (), if keys = [] then s else rename_last (last keys) s))"
  using assms
proof (induction keys arbitrary: s)
  case Nil
  then show ?case by (simp add: returnM_def)
next
  case (Cons k keys)
  have ne: "bry_vars (rename_last k s) \<noteq> []" using Cons.prems by (rule rename_last_nonempty)
  show ?case
  proof (cases "k \<in> set necessary")
    case False
    then show ?thesis using Cons.prems by (simp add: bindM_def assign_var_name_eq raiseM_def)
  next
    case True
    then show ?thesis
      using Cons.prems Cons.IH[OF ne]
      by (auto simp: bindM_def assign_var_name_eq returnM_def rename_last_twice split: option.splits)
  qed
qed

lemma bindM_Inr: "m s = (Inr x, s') \<Longrightarrow> bindM m f s = f x s'"
  by (simp add: bindM_def)

lemma bindM_Inl: "m s = (Inl e, s') \<Longrightarrow> bindM m f s = (Inl e, s')"
  by (simp add: bindM_def)

lemma verify_variables_eq:
  assumes "bry s = Val d" "bry_vars s \<noteq> []"
  shows "verify_variables s =
     (case find (\<lambda>v. name v \<notin> fst ` set (ds_vars d)) (bry_vars s) of
        Some v \<Rightarrow> (Inl (ValueError ''Variable {} not in file {}!'' [FStr (name v), FStr (bry_file s)]), s)
      | None \<Rightarrow>
         (case find (\<lambda>k. k \<notin> set catalog_names) (map fst (ds_vars d)) of
            Some k \<Rightarrow> (Inl (ValueError ''Variable {} is not needed in CICE bry file!'' [FStr k]), rename_last k s)
          | None \<Rightarrow> (Inr True, if ds_vars d = [] then s else rename_last (last (map fst (ds_vars d))) s)))"
proof -
  let ?l1 = "\<lambda>s. forM (bry_vars s) (\<lambda>var. bindM bry_keys (\<lambda>keys s.
            if name var \<notin> set keys
            then (Inl (ValueError ''Variable {} not in file {}!'' [FStr (name var), FStr (bry_file s)]), s)
            else (Inr (), s))) s"
  let ?l2 = "\<lambda>keys. forM keys (\<lambda>k. bindM (assign_var_name k) (\<lambda>u.
            if k \<notin> set (map name catalog)
            then raiseM (ValueError ''Variable {} is not needed in CICE bry file!'' [FStr k])
            else returnM ()))"
  have v: "verify_variables s =
      bindM ?l1 (\<lambda>u. bindM bry_keys (\<lambda>keys. bindM (?l2 keys) (\<lambda>u. returnM True))) s"
    by (simp add: verify_variables_def load_bry_vars_catalog liftE_def bindM_Inr Let_def)
  have l1: "?l1 s = (case find (\<lambda>v. name v \<notin> fst ` set (ds_vars d)) (bry_vars s) of
        None \<Rightarrow> (Inr (), s)
      | Some v \<Rightarrow> (Inl (ValueError ''Variable {} not in file {}!'' [FStr (name v), FStr (bry_file s)]), s))"
    using assms(1) by (rule loop1_eq)
  have l2: "?l2 (map fst (ds_vars d)) s =
     (case find (\<lambda>k. k \<notin> set (map name catalog)) (map fst (ds_vars d)) of
        Some k \<Rightarrow> (Inl (ValueError ''Variable {} is not needed in CICE bry file!'' [FStr k]), rename_last k s)
      | None \<Rightarrow> (Inr (), if map fst (ds_vars d) = [] then s else rename_last (last (map fst (ds_vars d))) s))"
    using assms(2) by (rule loop2_eq)
  show ?thesis
  proof (cases "find (\<lambda>v. name v \<notin> fst ` set (ds_vars d)) (bry_vars s)")
    case (Some v0)
    with l1 have "?l1 s = (Inl (ValueError ''Variable {} not in file {}!'' [FStr (name v0), FStr (bry_file s)]), s)"
      by simp
    then show ?thesis unfolding v using Some by (simp add: bindM_Inl)
  next
    case None
    with l1 have 1: "?l1 s = (Inr (), s)" by simp
    have k: "bry_keys s = (Inr (map fst (ds_vars d)), s)" using assms(1) by (rule bry_keys_eq)
    have v2: "verify_variables s = bindM (?l2 (map fst (ds_vars d))) (\<lambda>u. returnM True) s"
      unfolding v
      by (simp only: bindM_Inr[of ?l1 s "()" s, OF 1]
            bindM_Inr[of bry_keys s "map fst (ds_vars d)" s, OF k])
    show ?thesis
    proof (cases "find (\<lambda>k. k \<notin> set (map name catalog)) (map fst (ds_vars d))")
      case (Some k0)
      with l2 have "?l2 (map fst (ds_vars d)) s =
          (Inl (ValueError ''Variable {} is not needed in CICE bry file!'' [FStr k0]), rename_last k0 s)"
        by simp
      then show ?thesis unfolding v2 using None Some by (simp add: bindM_Inl catalog_names_def)
    next
      case n2: None
      with l2 have "?l2 (map fst (ds_vars d)) s =
          (Inr (), if map fst (ds_vars d) = [] then s else rename_last (last (map fst (ds_vars d))) s)"
        by simp
      then show ?thesis unfolding v2 using None n2
        by (simp add: bindM_Inr returnM_def catalog_names_def)
    qed
  qed
qed

lemma catalog_nonempty: "catalog \<noteq> []"
  by code_simp



lemma catalog_last: "name (last catalog) = ''Sinz_N_bry''"
  by code_simp








lemma find_None_subset: "find (\<lambda>x. x \<notin> A) xs = None \<longleftrightarrow> set xs \<subseteq> A"
  by (auto simp: find_None_iff)








lemma extra_not_in_catalog: "''extra'' \<notin> set catalog_names"
  by code_simp




lemma verify_variables_eq_keys:
  assumes "bry s = Val d" "bry_vars s \<noteq> []" "map fst (ds_vars d) = ks"
  shows "verify_variables s =
     (case find (\<lambda>v. name v \<notin> set ks) (bry_vars s) of
        Some v \<Rightarrow> (Inl (ValueError ''Variable {} not in file {}!'' [FStr (name v), FStr (bry_file s)]), s)
      | None \<Rightarrow>
         (case find (\<lambda>k. k \<notin> set catalog_names) ks of
            Some k \<Rightarrow> (Inl (ValueError ''Variable {} is not needed in CICE bry file!'' [FStr k]), rename_last k s)
          | None \<Rightarrow> (Inr True, if ks = [] then s else rename_last (last ks) s)))"
proof -
  have 1: "fst ` set (ds_vars d) = set ks" using assms(3) by (metis set_map)
  have 2: "ds_vars d = [] \<longleftrightarrow> ks = []" using assms(3) by auto
  show ?thesis
    unfolding verify_variables_eq[OF assms(1,2)] 1 assms(3) 2 by (rule refl)
qed

lemma find_append_None: "find P xs = None \<Longrightarrow> find P (xs @ ys) = find P ys"
  by (induction xs) (auto split: if_splits)

lemma last_list_update_last: "xs \<noteq> [] \<Longrightarrow> last (xs[length xs - 1 := y]) = y"
  by (simp add: last_conv_nth)

lemma hd_rev_last_catalog_names: "last (rev catalog_names) = ''Time''"
  by code_simp

text \<open>
  Claim C9 says that verification leaves the catalog unchanged. The code does not: the
  second loop assigns every name of the file to the \<^verbatim>\<open>name\<close> of the last catalog entry,
  \<^verbatim>\<open>Sinz_N_bry\<close>. On a file that holds the catalog's variables and one more, \<^verbatim>\<open>extra\<close>,
  the call fails and the last entry is left named \<^verbatim>\<open>extra\<close>; on a file that holds exactly
  the catalog's variables in the reverse order, the call returns \<^verbatim>\<open>True\<close> and the last entry
  is left named \<^verbatim>\<open>Time\<close>.
\<close>

theorem verify_variables_renames_last_entry:
  "name (last catalog) = ''Sinz_N_bry''
   \<and> fst (verify_variables
        \<lparr>mode = ''r'', bry_file = ''bry.nc'', dim_sizes = None, bry_vars = catalog,
         start_date = None, end_date = None, time_units = PNone,
         bry = Val \<lparr>ds_path = ''bry.nc'', ds_open = True, ds_dims = [],
                    ds_vars = map (\<lambda>n. (n, \<lparr>var_dims = [], var_shape = [], var_data = (\<lambda>idx. 0),
                                              var_attrs = []\<rparr>)) (catalog_names @ [''extra'']),
                    ds_attrs = []\<rparr>\<rparr>)
      = Inl (ValueError ''Variable {} is not needed in CICE bry file!'' [FStr ''extra''])
   \<and> name (last (bry_vars (snd (verify_variables
        \<lparr>mode = ''r'', bry_file = ''bry.nc'', dim_sizes = None, bry_vars = catalog,
         start_date = None, end_date = None, time_units = PNone,
         bry = Val \<lparr>ds_path = ''bry.nc'', ds_open = True, ds_dims = [],
                    ds_vars = map (\<lambda>n. (n, \<lparr>var_dims = [], var_shape = [], var_data = (\<lambda>idx. 0),
                                              var_attrs = []\<rparr>)) (catalog_names @ [''extra'']),
                    ds_attrs = []\<rparr>\<rparr>)))) = ''extra''
   \<and> fst (verify_variables
        \<lparr>mode = ''r'', bry_file = ''bry.nc'', dim_sizes = None, bry_vars = catalog,
         start_date = None, end_date = None, time_units = PNone,
         bry = Val \<lparr>ds_path = ''bry.nc'', ds_open = True, ds_dims = [],
                    ds_vars = map (\<lambda>n. (n, \<lparr>var_dims = [], var_shape = [], var_data = (\<lambda>idx. 0),
                                              var_attrs = []\<rparr>)) (rev catalog_names),
                    ds_attrs = []\<rparr>\<rparr>) = Inr True
   \<and> name (last (bry_vars (snd (verify_variables
        \<lparr>mode = ''r'', bry_file = ''bry.nc'', dim_sizes = None, bry_vars = catalog,
         start_date = None, end_date = None, time_units = PNone,
         bry = Val \<lparr>ds_path = ''bry.nc'', ds_open = True, ds_dims = [],
                    ds_vars = map (\<lambda>n. (n, \<lparr>var_dims = [], var_shape = [], var_data = (\<lambda>idx. 0),
                                              var_attrs = []\<rparr>)) (rev catalog_names),
                    ds_attrs = []\<rparr>\<rparr>)))) = ''Time''"
proof -
  let ?v0 = "\<lparr>var_dims = [], var_shape = [], var_data = (\<lambda>idx. 0::real), var_attrs = []\<rparr>"
  let ?mk = "\<lambda>keys. \<lparr>mode = ''r'', bry_file = ''bry.nc'', dim_sizes = None, bry_vars = catalog,
         start_date = None, end_date = None, time_units = PNone,
         bry = Val \<lparr>ds_path = ''bry.nc'', ds_open = True, ds_dims = [],
                    ds_vars = map (\<lambda>n. (n, ?v0)) keys, ds_attrs = []\<rparr>\<rparr>"
  have keys: "map fst (map (\<lambda>n. (n, ?v0)) ks) = ks" for ks :: "string list"
    by (simp add: comp_def)
  have img: "fst ` set (map (\<lambda>n. (n, ?v0)) ks) = set ks" for ks :: "string list"
    by (force simp: image_iff)
  have eq: "verify_variables (?mk ks) =
     (case find (\<lambda>v. name v \<notin> set ks) catalog of
        Some v \<Rightarrow> (Inl (ValueError ''Variable {} not in file {}!'' [FStr (name v), FStr ''bry.nc'']), ?mk ks)
      | None \<Rightarrow>
         (case find (\<lambda>k. k \<notin> set catalog_names) ks of
            Some k \<Rightarrow> (Inl (ValueError ''Variable {} is not needed in CICE bry file!'' [FStr k]), rename_last k (?mk ks))
          | None \<Rightarrow> (Inr True, if ks = [] then ?mk ks else rename_last (last ks) (?mk ks))))"
    for ks :: "string list"
    using verify_variables_eq_keys[of "?mk ks" "\<lparr>ds_path = ''bry.nc'', ds_open = True, ds_dims = [],
                    ds_vars = map (\<lambda>n. (n, ?v0)) ks, ds_attrs = []\<rparr>" ks] catalog_nonempty
    by (auto simp: comp_def split: option.splits)
  have last_rn: "name (last (bry_vars (rename_last k (?mk ks)))) = k" for k ks
    using catalog_nonempty by (simp add: rename_last_def last_conv_nth)
  have n1: "find (\<lambda>v. name v \<notin> set (catalog_names @ [''extra''])) catalog = None"
    by (auto simp: find_None_iff catalog_names_def)
  have n2: "find (\<lambda>k. k \<notin> set catalog_names) catalog_names = None"
    by (auto simp: find_None_iff)
  have s2: "find (\<lambda>k. k \<notin> set catalog_names) (catalog_names @ [''extra'']) = Some ''extra''"
    using find_append_None[OF n2, of "[''extra'']"] extra_not_in_catalog by simp
  have E: "verify_variables (?mk (catalog_names @ [''extra''])) =
      (Inl (ValueError ''Variable {} is not needed in CICE bry file!'' [FStr ''extra'']),
       rename_last ''extra'' (?mk (catalog_names @ [''extra''])))"
    unfolding eq n1 s2 by simp
  have r1: "find (\<lambda>v. name v \<notin> set (rev catalog_names)) catalog = None"
    by (auto simp: find_None_iff catalog_names_def)
  have r2: "find (\<lambda>k. k \<notin> set catalog_names) (rev catalog_names) = None"
    by (auto simp: find_None_iff)
  have rne: "rev catalog_names \<noteq> []" using catalog_nonempty by (simp add: catalog_names_def)
  have R: "verify_variables (?mk (rev catalog_names)) =
      (Inr True, rename_last (last (rev catalog_names)) (?mk (rev catalog_names)))"
    unfolding eq r1 r2 using rne by simp
  show ?thesis
    unfolding E R by (simp only: fst_conv snd_conv last_rn catalog_last hd_rev_last_catalog_names simp_thms)
qed


subsection \<open>Arrays and the store\<close>

lemma bindE_Inr_iff: "bindE m f = Inr y \<longleftrightarrow> (\<exists>x. m = Inr x \<and> f x = Inr y)"
  by (cases m) (simp_all add: bindE_def)



subsection \<open>Selections\<close>




lemma getitem_Inr:
  "getitem sh dat ixs = Inr r \<longleftrightarrow>
     (\<exists>sel. norm_ixs sh ixs = Inr sel \<and> r = \<lparr>shape = sliced_shape sh sel, item = (\<lambda>idx. dat (fill sel idx))\<rparr>)"
  by (auto simp: getitem_def bindE_Inr_iff)


subsection \<open>Reading back what was written\<close>







subsection \<open>Broadcasting on the shapes of the loop body\<close>

lemma bshape_rev_same: "bshape_rev xs xs = Some xs"
  by (induction xs) simp_all

lemma broadcast_shape_same: "broadcast_shape sh sh = Some sh"
  by (simp add: broadcast_shape_def bshape_rev_same)

lemma bidx_rev_in: "list_all2 (<) idx ds \<Longrightarrow> bidx_rev ds idx = idx"
  by (induction idx ds rule: list_all2_induct) auto

lemma in_shape_all2: "in_shape sh idx \<longleftrightarrow> list_all2 (<) idx sh"
  by (induction sh idx rule: in_shape.induct) auto

lemma bidx_in: "in_shape sh idx \<Longrightarrow> bidx sh idx = idx"
  by (simp add: bidx_def in_shape_all2 bidx_rev_in list_all2_rev)

lemma np_binop_same:
  assumes "shape a = shape b"
  shows "\<exists>r. np_binop f a b = Inr r \<and> shape r = shape a
          \<and> (\<forall>idx. in_shape (shape a) idx \<longrightarrow> item r idx = f (item a idx) (item b idx))"
  using assms by (simp add: np_binop_def broadcast_shape_same bidx_in)

subsection \<open>The small input\<close>



lemma getitem_W3:
  "var_shape v = [1, 2, 2] \<Longrightarrow>
   var_getitem v [Ix 0, Sl, Ix 0] =
     Inr \<lparr>shape = [2], item = (\<lambda>idx. var_data v (fill [Some 0, None, Some 0] idx))\<rparr>"
  by (simp add: var_getitem_def getitem_def bindE_def norm_index_def)

lemma ex_hice_W:
  "var_getitem ex_hice [Ix 0, Sl, Ix 0] =
     Inr \<lparr>shape = [2], item = (\<lambda>idx. var_data ex_hice (fill [Some 0, None, Some 0] idx))\<rparr>"
  by (rule getitem_W3) (simp add: ex_hice_def ex_var3_def)








subsection \<open>The category mask\<close>

lemma list_get_cat_lims:
  "0 \<le> n \<Longrightarrow> n < 6 \<Longrightarrow> list_get cat_lims n = Inr (cat_lims ! nat n)"
  by (simp add: list_get_def norm_index_def bindE_def cat_lims_def)

lemma cat_mask_expr_eq:
  assumes "var_getitem hice cslice = Inr h" "0 \<le> n" "n < 5"
  shows "\<exists>m. cat_mask_expr hice cslice n = Inr m \<and> shape m = shape h
     \<and> (\<forall>idx. in_shape (shape h) idx \<longrightarrow>
           item m idx = (cat_lims ! nat n < item h idx \<and> item h idx < cat_lims ! (nat n + 1)))"
proof -
  have lo: "list_get cat_lims n = Inr (cat_lims ! nat n)"
    using assms by (simp add: list_get_cat_lims)
  have hi: "list_get cat_lims (n + 1) = Inr (cat_lims ! (nat n + 1))"
    using assms list_get_cat_lims[of "n + 1"] by (simp add: nat_add_distrib)
  let ?a = "np_map (\<lambda>x. cat_lims ! nat n < x) h"
  let ?b = "np_map (\<lambda>x. x < cat_lims ! (nat n + 1)) h"
  have "shape ?a = shape ?b" by (simp add: np_map_def)
  from np_binop_same[OF this, of "(\<and>)"] obtain m where
    m: "np_binop (\<and>) ?a ?b = Inr m" "shape m = shape ?a"
       "\<forall>idx. in_shape (shape ?a) idx \<longrightarrow> item m idx = (item ?a idx \<and> item ?b idx)"
    by blast
  have "cat_mask_expr hice cslice n = Inr m"
    using assms(1) lo hi m(1) by (simp add: cat_mask_expr_def bindE_def np_logical_and_def)
  with m(2,3) show ?thesis by (simp add: np_map_def)
qed

lemma cat_lims_one:
  assumes "0 \<le> n" "n < 5"
  shows "(cat_lims ! nat n < 1 \<and> 1 < cat_lims ! (nat n + 1)) \<longleftrightarrow> n = 1"
proof -
  from assms have "n = 0 \<or> n = 1 \<or> n = 2 \<or> n = 3 \<or> n = 4" by arith
  then show ?thesis by (auto simp: cat_lims_def)
qed

lemma cat_lims_threshold:
  assumes "0 \<le> n" "n < 5" "x \<in> set cat_lims"
  shows "\<not> (cat_lims ! nat n < x \<and> x < cat_lims ! (nat n + 1))"
proof -
  from assms have "n = 0 \<or> n = 1 \<or> n = 2 \<or> n = 3 \<or> n = 4" by arith
  then show ?thesis using assms(3) by (auto simp: cat_lims_def)
qed

text \<open>
  Claim C1. For a category index \<open>n\<close> from 0 to 4 the mask that \<^verbatim>\<open>write_bry_data\<close> computes
  from a slice \<open>h\<close> of the ice thickness has the shape of \<open>h\<close> and is true at an index
  exactly when \<open>cat_lims[n] < h < cat_lims[n+1]\<close>, both inequalities strict. So for the
  fixed table a thickness of 1.0 is in category 1 alone, and a thickness equal to one of the
  six thresholds is in no category.
\<close>

theorem cat_mask_strict_both_ends:
  assumes "var_getitem hice cslice = Inr h" "0 \<le> n" "n < 5"
  shows "\<exists>m. cat_mask_expr hice cslice n = Inr m \<and> shape m = shape h
     \<and> (\<forall>idx. in_shape (shape h) idx \<longrightarrow>
           (item m idx \<longleftrightarrow> cat_lims ! nat n < item h idx \<and> item h idx < cat_lims ! (nat n + 1))
         \<and> (item h idx = 1 \<longrightarrow> (item m idx \<longleftrightarrow> n = 1))
         \<and> (item h idx \<in> set cat_lims \<longrightarrow> \<not> item m idx))"
proof -
  from cat_mask_expr_eq[OF assms] obtain m where
    m: "cat_mask_expr hice cslice n = Inr m" "shape m = shape h"
     "\<forall>idx. in_shape (shape h) idx \<longrightarrow>
           item m idx = (cat_lims ! nat n < item h idx \<and> item h idx < cat_lims ! (nat n + 1))"
    by blast
  have "(item m idx \<longleftrightarrow> cat_lims ! nat n < item h idx \<and> item h idx < cat_lims ! (nat n + 1))
         \<and> (item h idx = 1 \<longrightarrow> (item m idx \<longleftrightarrow> n = 1))
         \<and> (item h idx \<in> set cat_lims \<longrightarrow> \<not> item m idx)" if "in_shape (shape h) idx" for idx
    using m(3) that cat_lims_one[OF assms(2,3)] cat_lims_threshold[OF assms(2,3), of "item h idx"]
    by auto
  with m(1,2) show ?thesis by blast
qed

theorem cat_mask_strict_both_ends_witness:
  "(\<exists>m. cat_mask_expr ex_hice [Ix 0, Sl, Ix 0] 1 = Inr m \<and> shape m = [2]
        \<and> item m [0] \<and> \<not> item m [1])
   \<and> (\<exists>m. cat_mask_expr ex_hice [Ix 0, Sl, Ix 0] 0 = Inr m \<and> \<not> item m [0] \<and> \<not> item m [1])"
proof -
  let ?H = "\<lparr>shape = [2], item = (\<lambda>idx. var_data ex_hice (fill [Some 0, None, Some 0] idx))\<rparr>"
  have h0: "item ?H [0] = 1" and h1: "item ?H [1] \<in> set cat_lims"
    by (simp_all add: ex_hice_def ex_var3_def cat_lims_def)
  have i0: "in_shape (shape ?H) [0]" and i1: "in_shape (shape ?H) [1]" by simp_all
  from cat_mask_strict_both_ends[OF ex_hice_W, of 1] obtain m where
    m: "cat_mask_expr ex_hice [Ix 0, Sl, Ix 0] 1 = Inr m" "shape m = shape ?H"
     "\<forall>idx. in_shape (shape ?H) idx \<longrightarrow>
           (item m idx \<longleftrightarrow> cat_lims ! nat 1 < item ?H idx \<and> item ?H idx < cat_lims ! (nat 1 + 1))
         \<and> (item ?H idx = 1 \<longrightarrow> (item m idx \<longleftrightarrow> (1::int) = 1))
         \<and> (item ?H idx \<in> set cat_lims \<longrightarrow> \<not> item m idx)"
    by auto
  from m(3) i0 h0 have "item m [0] \<longleftrightarrow> (1::int) = 1" by blast
  then have a: "item m [0]" by simp
  from m(3) i1 h1 have b: "\<not> item m [1]" by blast
  from cat_mask_strict_both_ends[OF ex_hice_W, of 0] obtain m0 where
    m0: "cat_mask_expr ex_hice [Ix 0, Sl, Ix 0] 0 = Inr m0"
     "\<forall>idx. in_shape (shape ?H) idx \<longrightarrow>
           (item m0 idx \<longleftrightarrow> cat_lims ! nat 0 < item ?H idx \<and> item ?H idx < cat_lims ! (nat 0 + 1))
         \<and> (item ?H idx = 1 \<longrightarrow> (item m0 idx \<longleftrightarrow> (0::int) = 1))
         \<and> (item ?H idx \<in> set cat_lims \<longrightarrow> \<not> item m0 idx)"
    by auto
  from m0(2) i0 h0 have "item m0 [0] \<longleftrightarrow> (0::int) = 1" by blast
  then have c: "\<not> item m0 [0]" by simp
  from m0(2) i1 h1 have d: "\<not> item m0 [1]" by blast
  from m(1,2) a b m0(1) c d show ?thesis by auto
qed

subsection \<open>The loop body\<close>





























lemma in_shape_1: "in_shape [L] [p] \<longleftrightarrow> p < L"
  by simp

lemma in_shape_2: "in_shape [K, L] [k, p] \<longleftrightarrow> k < K \<and> p < L"
  by simp








end
